theory Spec2Isabelle
  imports Complex_Main
begin

section \<open>Strings and configuration\<close>

text \<open>
  A Python \<open>str\<close> is a sequence of Unicode code points; \<open>len\<close>, slicing and the
  regular expressions of \<open>app.py\<close> all count code points. A string is therefore a list
  of code points, and \<open>str\<close> turns an ASCII literal into one.
\<close>

type_synonym pystr = "nat list"

definition str :: "string \<Rightarrow> pystr" where
  "str s = map of_char s"

text \<open>
  \<open>str.isspace\<close> for one code point. \<open>str.strip()\<close> and the class \<open>\s\<close> of a
  \<open>str\<close> pattern use the same test: the ASCII controls 9-13 and 28-31, the space,
  U+0085, U+00A0, U+1680, U+2000-U+200A, U+2028, U+2029, U+202F, U+205F and U+3000.
\<close>

definition isspace :: "nat \<Rightarrow> bool" where
  "isspace c \<longleftrightarrow>
     (9 \<le> c \<and> c \<le> 13) \<or> (28 \<le> c \<and> c \<le> 32) \<or> c = 133 \<or> c = 160 \<or> c = 5760 \<or>
     (8192 \<le> c \<and> c \<le> 8202) \<or> c = 8232 \<or> c = 8233 \<or> c = 8239 \<or> c = 8287 \<or> c = 12288"

definition SPACE :: nat where
  "SPACE = 32"

text \<open>One character of the class \<open>[0-9a-fA-F]\<close>.\<close>

definition ishex :: "nat \<Rightarrow> bool" where
  "ishex c \<longleftrightarrow> (48 \<le> c \<and> c \<le> 57) \<or> (97 \<le> c \<and> c \<le> 102) \<or> (65 \<le> c \<and> c \<le> 70)"

definition ALIAS_MAX :: int where "ALIAS_MAX = 30"
definition CITY_MAX :: int where "CITY_MAX = 60"
definition COUNTRY_MAX :: int where "COUNTRY_MAX = 60"
definition RATE_LIMIT_WINDOW_S :: real where "RATE_LIMIT_WINDOW_S = 60"
definition RATE_LIMIT_MAX :: nat where "RATE_LIMIT_MAX = 12"

text \<open>
  \<open>BTC_ADDRESS\<close> and \<open>ORIGIN_LABEL\<close> are read from the environment once, when the
  module is loaded; they are the two fields of the configuration.
\<close>

record config =
  BTC_ADDRESS :: pystr
  ORIGIN_LABEL :: pystr

section \<open>Values and errors\<close>

text \<open>
  A value of the request's JSON object, as far as \<open>sanitize_text\<close> can tell values
  apart: a string, a falsy value that is not a string (\<open>null\<close>, \<open>false\<close>, \<open>0\<close>,
  \<open>[]\<close>, \<open>{}\<close>), or a truthy value that is not a string.
\<close>

datatype jval = JStr pystr | JFalsy | JTruthy

text \<open>The exceptions of the modelled paths.\<close>

datatype error =
  AttributeError
  | IntegrityError
  | OSError
  | RequestException
  | ValueError
  | UnicodeEncodeError

text \<open>
  A Python \<open>float\<close>. Arithmetic on finite floats is idealised to the reals; \<open>NaN\<close> is
  kept apart because SQLite binds it as \<open>NULL\<close>.
\<close>

datatype pyfloat = Fin real | NaN

section \<open>Sanitizer (app.py, lines 47-54)\<close>

text \<open>\<open>s.strip()\<close>: the leading and the trailing whitespace removed.\<close>

definition py_strip :: "pystr \<Rightarrow> pystr" where
  "py_strip s = rev (dropWhile isspace (rev (dropWhile isspace s)))"

text \<open>
  \<open>re.sub(r"\s+", " ", s)\<close>: the scan goes from left to right; at a whitespace
  character the greedy \<open>\s+\<close> takes the whole run, which is replaced by one space, and
  the scan goes on behind it; any other character is copied.
\<close>

function re_sub_ws :: "pystr \<Rightarrow> pystr" where
  "re_sub_ws [] = []"
| "re_sub_ws (c # cs) =
     (if isspace c then SPACE # re_sub_ws (dropWhile isspace cs) else c # re_sub_ws cs)"
  by pat_completeness auto
termination
  by (relation "measure length") (auto simp: length_dropWhile_le less_Suc_eq_le)

text \<open>
  \<open>s[:n]\<close>: a negative \<open>n\<close> counts from the end, and a stop before the start gives
  the empty string.
\<close>

definition py_slice_to :: "pystr \<Rightarrow> int \<Rightarrow> pystr" where
  "py_slice_to s n = take (nat (if n < 0 then int (length s) + n else n)) s"

definition sanitize_str :: "pystr \<Rightarrow> int \<Rightarrow> pystr" where
  "sanitize_str s max_len = py_slice_to (re_sub_ws (py_strip s)) max_len"

text \<open>
  \<open>sanitize_text\<close> on a JSON value: \<open>(s or "")\<close> turns every falsy value into the empty
  string; a truthy value that is not a string has no \<open>strip\<close>, which raises
  \<open>AttributeError\<close>.
\<close>

fun sanitize_text :: "jval \<Rightarrow> int \<Rightarrow> error + pystr" where
  "sanitize_text (JStr s) max_len = Inr (sanitize_str s max_len)"
| "sanitize_text JFalsy max_len = Inr (sanitize_str [] max_len)"
| "sanitize_text JTruthy max_len = Inl AttributeError"

text \<open>\<open>re.fullmatch(r"[0-9a-fA-F]{64}", txid or "")\<close>.\<close>

definition valid_txid :: "pystr \<Rightarrow> bool" where
  "valid_txid txid \<longleftrightarrow> length txid = 64 \<and> list_all ishex txid"

subsection \<open>The sanitizer as the specification words it\<close>

text \<open>
  The specification's normal form, written independently of the code: the words of the
  raw string (its maximal runs of characters that are not whitespace), joined by single
  spaces, cut to the maximum length.
\<close>

function ws_words :: "pystr \<Rightarrow> pystr list" where
  "ws_words s =
     (case dropWhile isspace s of
        [] \<Rightarrow> []
      | c # cs \<Rightarrow> takeWhile (\<lambda>x. \<not> isspace x) (c # cs)
                 # ws_words (dropWhile (\<lambda>x. \<not> isspace x) (c # cs)))"
  by pat_completeness auto
termination
proof (relation "measure length", simp, goal_cases)
  case (1 s c cs)
  have "length (dropWhile (\<lambda>x. \<not> isspace x) cs) \<le> length cs"
    by (rule length_dropWhile_le)
  moreover have "\<not> isspace c"
    using 1 hd_dropWhile [of isspace s] by (metis list.distinct(1) list.sel(1))
  moreover have "length (c # cs) \<le> length s"
    using 1 length_dropWhile_le [of isspace s] by simp
  ultimately show ?case by simp
qed

fun join_space :: "pystr list \<Rightarrow> pystr" where
  "join_space [] = []"
| "join_space [w] = w"
| "join_space (w # v # ws) = w @ SPACE # join_space (v # ws)"

definition spec_sanitize :: "pystr \<Rightarrow> nat \<Rightarrow> pystr" where
  "spec_sanitize s max_len = take max_len (join_space (ws_words s))"

section \<open>Rate limiter (app.py, lines 162-170)\<close>

text \<open>
  \<open>_ip_hits\<close> maps an origin to its recorded timestamps; \<open>time.time()\<close> is the
  argument \<open>now\<close>. The function returns its answer and the updated dictionary.
\<close>

type_synonym ip_hits = "pystr \<rightharpoonup> real list"

text \<open>\<open>_ip_hits.get(ip, [])\<close>.\<close>

definition hits_of :: "ip_hits \<Rightarrow> pystr \<Rightarrow> real list" where
  "hits_of hits_map ip = (case hits_map ip of None \<Rightarrow> [] | Some h \<Rightarrow> h)"

definition rate_limited :: "real \<Rightarrow> pystr \<Rightarrow> ip_hits \<Rightarrow> bool \<times> ip_hits" where
  "rate_limited now ip hits_map =
     (let hits = hits_of hits_map ip;
          hits = filter (\<lambda>t. now - t < RATE_LIMIT_WINDOW_S) hits;
          hits = hits @ [now]
      in (length hits > RATE_LIMIT_MAX, hits_map(ip \<mapsto> hits)))"

text \<open>
  One origin calling the limiter at the times \<open>ts\<close>, one call after the other: the
  answers in order, and the dictionary at the end.
\<close>

fun run_checks :: "pystr \<Rightarrow> real list \<Rightarrow> ip_hits \<Rightarrow> bool list \<times> ip_hits" where
  "run_checks ip [] h = ([], h)"
| "run_checks ip (t # ts) h =
     (let (b, h') = rate_limited t ip h;
          (bs, h'') = run_checks ip ts h'
      in (b # bs, h''))"

section \<open>Fact sources\<close>

text \<open>
  What \<open>requests.get\<close> does for one URL: it raises (connection error, timeout), or it
  returns a response with a status code and a body; the body is \<open>None\<close> where
  \<open>r.json()\<close> would raise.
\<close>

datatype 'a http = Raises | Response int "'a option"

text \<open>
  One output of a transaction as the explorer reports it: the key
  \<open>scriptpubkey_address\<close> may be absent, and \<open>o.get("value", 0)\<close> defaults an absent
  value to 0; a value that is there is an integer number of satoshis. The body of a
  transaction is its \<open>vout\<close> list, absent when the key is.
\<close>

record txout =
  scriptpubkey_address :: "pystr option"
  out_value :: "int option"

record tx =
  vout :: "txout list option"

text \<open>The loop of lines 110-114, with the accumulator \<open>sats\<close>.\<close>

fun sum_outputs :: "txout list \<Rightarrow> pystr \<Rightarrow> int \<Rightarrow> int" where
  "sum_outputs [] addr sats = sats"
| "sum_outputs (out # outs) addr sats =
     sum_outputs outs addr
       (if scriptpubkey_address out = Some addr
        then sats + (case out_value out of None \<Rightarrow> 0 | Some v \<Rightarrow> v)
        else sats)"

text \<open>
  \<open>tx_amount_to_our_address_btc\<close> (lines 103-117). The first argument is the explorer:
  the answer to the request for each transaction id. The division \<open>sats / 1e8\<close> is
  taken in the reals: the rounding of a float, and the \<open>OverflowError\<close> of a sum beyond
  the range of a float, are not modelled.
\<close>

definition tx_amount_to_our_address_btc ::
  "(pystr \<Rightarrow> tx http) \<Rightarrow> pystr \<Rightarrow> pystr \<Rightarrow> error + real option" where
  "tx_amount_to_our_address_btc explorer txid' addr =
     (case explorer txid' of
        Raises \<Rightarrow> Inl RequestException
      | Response status_code body \<Rightarrow>
          if status_code \<noteq> 200 then Inr None
          else (case body of
                  None \<Rightarrow> Inl ValueError
                | Some t \<Rightarrow>
                    (let vouts = (case vout t of None \<Rightarrow> [] | Some vs \<Rightarrow> vs);
                         sats = sum_outputs vouts addr 0
                     in if sats \<le> 0 then Inr None
                        else Inr (Some (real_of_int sats / 10 ^ 8)))))"

text \<open>
  The amount as the specification words it: the sum of the value of every output whose
  destination address equals the configured address.
\<close>

definition spec_paid :: "pystr \<Rightarrow> txout list \<Rightarrow> int" where
  "spec_paid addr outs =
     sum_list (map (\<lambda>out. case out_value out of None \<Rightarrow> 0 | Some v \<Rightarrow> v)
                   (filter (\<lambda>out. scriptpubkey_address out = Some addr) outs))"

text \<open>
  One candidate of the geocoder: \<open>float(data[0]["lat"])\<close> and
  \<open>float(data[0]["lon"])\<close>, \<open>None\<close> where the key is missing or the conversion raises.
\<close>

record candidate =
  cand_lat :: "pyfloat option"
  cand_lon :: "pyfloat option"

text \<open>
  \<open>geocode_city_country\<close> (lines 89-101); the query is \<open>f"{city}, {country}"\<close>.
  The first argument is the geocoder: what \<open>requests.get\<close> does for each query, which
  includes raising for a query it cannot encode.
\<close>

definition geocode_city_country ::
  "(pystr \<Rightarrow> candidate list http) \<Rightarrow> pystr \<Rightarrow> pystr \<Rightarrow> error + (pyfloat \<times> pyfloat) option" where
  "geocode_city_country geocoder city' country' =
     (let q = city' @ str '', '' @ country'
      in case geocoder q of
           Raises \<Rightarrow> Inl RequestException
         | Response status_code body \<Rightarrow>
             if status_code \<noteq> 200 then Inr None
             else (case body of
                     None \<Rightarrow> Inl ValueError
                   | Some [] \<Rightarrow> Inr None
                   | Some (d # _) \<Rightarrow>
                       (case cand_lat d of
                          None \<Rightarrow> Inl ValueError
                        | Some la \<Rightarrow>
                            (case cand_lon d of
                               None \<Rightarrow> Inl ValueError
                             | Some lo \<Rightarrow> Inr (Some (la, lo))))))"

section \<open>Ledger store (app.py, lines 56-82 and 260-271)\<close>

text \<open>
  One row of the table \<open>entries\<close>. The column \<open>alias\<close> (the field \<open>alias_text\<close>)
  may be \<open>NULL\<close>; every other column is \<open>NOT NULL\<close>, so a stored row has a value there.
  The database is taken to be there and initialised by \<open>init_db\<close>: connecting and
  executing raise nothing but the exceptions of the \<open>INSERT\<close> below. The table
  \<open>meta\<close>, which no handler reads, is left out.
\<close>

record row =
  row_id :: nat
  txid :: pystr
  alias_text :: "pystr option"
  city :: pystr
  country :: pystr
  lat :: real
  lng :: real
  amount_btc :: real
  iso_date :: pystr

text \<open>A JSON document as \<open>json.dump\<close> writes it; an object keeps the order of its keys.\<close>

datatype json =
  JString pystr
  | JNumber real
  | JArray "json list"
  | JObject "(string \<times> json) list"

text \<open>
  The file \<open>site/data/log.json\<close>: not there, holding a document, or cut short by a write
  that failed.
\<close>

datatype log_file = Absent | Written json | Partial

text \<open>
  The state the handlers share: the rate limiter's dictionary, the table \<open>entries\<close> in
  the order of insertion, the largest id \<open>AUTOINCREMENT\<close> has handed out, and the
  exported file. Handlers run one at a time: each takes the state and returns the next.
\<close>

record state =
  ip_hits :: ip_hits
  entries :: "row list"
  sqlite_sequence :: nat
  log_json :: log_file

text \<open>\<open>AUTOINCREMENT\<close>: one more than every id of the table and every id used before.\<close>

definition next_id :: "state \<Rightarrow> nat" where
  "next_id st = Suc (fold max (map row_id (entries st)) (sqlite_sequence st))"

text \<open>
  A string can be encoded as UTF-8 when it holds no lone surrogate (U+D800 to U+DFFF).
  A JSON body can carry one: the escape for U+D800 decodes to a string that holds it.
\<close>

definition is_surrogate :: "nat \<Rightarrow> bool" where
  "is_surrogate c \<longleftrightarrow> 55296 \<le> c \<and> c \<le> 57343"

definition encodable :: "pystr \<Rightarrow> bool" where
  "encodable s \<longleftrightarrow> list_all (\<lambda>c. \<not> is_surrogate c) s"

text \<open>
  The \<open>INSERT\<close> of lines 262-266. The parameters are bound first: a string that
  cannot be encoded as UTF-8 raises \<open>UnicodeEncodeError\<close>, and a \<open>NaN\<close> is bound as
  \<open>NULL\<close>. Then the statement runs: a \<open>NULL\<close> violates \<open>NOT NULL\<close>, and a
  transaction id already in the table violates \<open>UNIQUE\<close>; both raise
  \<open>sqlite3.IntegrityError\<close>. Every exception leaves the table as it was.
\<close>

definition insert_entry ::
  "pystr \<Rightarrow> pystr \<Rightarrow> pystr \<Rightarrow> pystr \<Rightarrow> pyfloat \<Rightarrow> pyfloat \<Rightarrow> real \<Rightarrow> pystr \<Rightarrow> state
   \<Rightarrow> error + state" where
  "insert_entry txid' alias' city' country' la lo amount iso_date' st =
     (if \<not> (encodable txid' \<and> encodable alias' \<and> encodable city' \<and>
             encodable country' \<and> encodable iso_date')
      then Inl UnicodeEncodeError
      else
        case la of
          NaN \<Rightarrow> Inl IntegrityError
        | Fin x \<Rightarrow>
            (case lo of
               NaN \<Rightarrow> Inl IntegrityError
             | Fin y \<Rightarrow>
                 if txid' \<in> set (map txid (entries st)) then Inl IntegrityError
                 else Inr (st\<lparr>entries := entries st @
                                [\<lparr>row_id = next_id st, txid = txid', alias_text = Some alias',
                                  city = city', country = country', lat = x, lng = y,
                                  amount_btc = amount, iso_date = iso_date'\<rparr>],
                              sqlite_sequence := next_id st\<rparr>)))"

text \<open>
  \<open>id INTEGER PRIMARY KEY AUTOINCREMENT\<close>: along the order of insertion the ids
  strictly increase.
\<close>

definition ids_ascending :: "state \<Rightarrow> bool" where
  "ids_ascending st \<longleftrightarrow> sorted_wrt (<) (map row_id (entries st))"

text \<open>
  Well-formed text of a stored entry: whitespace occurs only as the single character
  U+0020, never twice in a row; a field of at most \<open>n\<close> characters is not empty, does
  not start with whitespace, and ends with whitespace only when it has exactly \<open>n\<close>
  characters (the cut fell right after a collapsed run).
\<close>

fun single_spaced :: "pystr \<Rightarrow> bool" where
  "single_spaced [] = True"
| "single_spaced [c] = (isspace c \<longrightarrow> c = SPACE)"
| "single_spaced (c # d # cs) =
     ((isspace c \<longrightarrow> c = SPACE \<and> \<not> isspace d) \<and> single_spaced (d # cs))"

definition text_ok :: "pystr \<Rightarrow> nat \<Rightarrow> bool" where
  "text_ok s n \<longleftrightarrow>
     s \<noteq> [] \<and> length s \<le> n \<and> \<not> isspace (hd s) \<and> single_spaced s \<and>
     (isspace (last s) \<longrightarrow> length s = n)"

definition entry_ok :: "row \<Rightarrow> bool" where
  "entry_ok r \<longleftrightarrow>
     valid_txid (txid r) \<and> text_ok (city r) 60 \<and> text_ok (country r) 60 \<and>
     (case alias_text r of None \<Rightarrow> True | Some a \<Rightarrow> length a \<le> 30)"

section \<open>Exporter (app.py, lines 130-157)\<close>

text \<open>\<open>SELECT * FROM entries ORDER BY id ASC\<close>.\<close>

definition select_all :: "state \<Rightarrow> row list" where
  "select_all st = sort_key row_id (entries st)"

text \<open>The dictionary built for one row; \<open>r["alias"] or ""\<close> turns \<open>NULL\<close> into \<open>""\<close>.\<close>

definition entry_json :: "row \<Rightarrow> json" where
  "entry_json r =
     JObject [(''txid'', JString (txid r)),
              (''alias'', JString (case alias_text r of None \<Rightarrow> [] | Some a \<Rightarrow> a)),
              (''city'', JString (city r)),
              (''country'', JString (country r)),
              (''lat'', JNumber (lat r)),
              (''lng'', JNumber (lng r)),
              (''amount_btc'', JNumber (amount_btc r)),
              (''iso_date'', JString (iso_date r))]"

text \<open>The dictionary \<open>out\<close>; \<open>exported_iso\<close> is the value of \<open>utc_now_iso()\<close>.\<close>

definition export_doc :: "config \<Rightarrow> pystr \<Rightarrow> row list \<Rightarrow> json" where
  "export_doc cfg exported_iso rows =
     JObject [(''project'', JObject [(''origin_label'', JString (ORIGIN_LABEL cfg)),
                                    (''btc_address'', JString (BTC_ADDRESS cfg)),
                                    (''exported_iso'', JString exported_iso)]),
              (''entries'', JArray (map entry_json rows))]"

text \<open>
  What the file system does with the write: it succeeds, it fails before the file is
  opened (\<open>os.makedirs\<close>, \<open>open\<close>), or it fails after \<open>open(..., "w")\<close> has truncated
  the file.
\<close>

datatype io = Io_Ok | Io_Fail_Open | Io_Fail_Write

definition export_log_json :: "config \<Rightarrow> pystr \<Rightarrow> io \<Rightarrow> state \<Rightarrow> error option \<times> state" where
  "export_log_json cfg exported_iso fs st =
     (let rows = select_all st;
          out = export_doc cfg exported_iso rows
      in case fs of
           Io_Ok \<Rightarrow> (None, st\<lparr>log_json := Written out\<rparr>)
         | Io_Fail_Open \<Rightarrow> (Some OSError, st)
         | Io_Fail_Write \<Rightarrow> (Some OSError, st\<lparr>log_json := Partial\<rparr>))"

text \<open>
  A document without its export timestamp: the key \<open>exported_iso\<close> is taken out of the
  object under \<open>project\<close>. Two documents are identical except for the timestamp when
  they agree after this.
\<close>

fun drop_exported_iso :: "json \<Rightarrow> json" where
  "drop_exported_iso (JObject kvs) =
     JObject (map (\<lambda>(k, v).
        if k = ''project''
        then (k, case v of
                   JObject ps \<Rightarrow> JObject (filter (\<lambda>(k', _). k' \<noteq> ''exported_iso'') ps)
                 | _ \<Rightarrow> v)
        else (k, v)) kvs)"
| "drop_exported_iso j = j"

text \<open>\<open>GET /api/log\<close> (lines 186-206) answers with the same document and writes nothing.\<close>

definition api_log :: "config \<Rightarrow> pystr \<Rightarrow> state \<Rightarrow> json" where
  "api_log cfg exported_iso st = export_doc cfg exported_iso (select_all st)"

section \<open>Submission (app.py, lines 222-279)\<close>

text \<open>
  The body of the request as \<open>request.get_json(silent=True) or {}\<close> sees it: nothing
  usable (no JSON, or a falsy value), an object, or a truthy value that is not an object.
\<close>

datatype body = No_Json | Json_Dict "pystr \<rightharpoonup> jval" | Json_Truthy

record request =
  x_forwarded_for :: "pystr option"
  remote_addr :: "pystr option"
  json_body :: body

text \<open>
  Everything outside the process that one submission reads: the clock, the two fact
  sources, the two values of \<open>utc_now_iso()\<close> and the file system.
\<close>

record env =
  now :: real
  explorer :: "pystr \<Rightarrow> tx http"
  geocoder :: "pystr \<Rightarrow> candidate list http"
  utc_now_iso :: pystr
  export_iso :: pystr
  export_io :: io

datatype response = Response_Ok | Response_Error string nat

text \<open>\<open>request.headers.get("X-Forwarded-For", request.remote_addr) or "unknown"\<close>.\<close>

definition client_ip :: "request \<Rightarrow> pystr" where
  "client_ip rq =
     (case (case x_forwarded_for rq of Some h \<Rightarrow> Some h | None \<Rightarrow> remote_addr rq) of
        None \<Rightarrow> str ''unknown''
      | Some a \<Rightarrow> if a = [] then str ''unknown'' else a)"

text \<open>
  \<open>sanitize_text(data.get(key, ""), max_len)\<close>: a truthy body that is not an object has
  no \<open>get\<close>.
\<close>

definition data_get :: "body \<Rightarrow> string \<Rightarrow> error + jval" where
  "data_get b key =
     (case b of
        No_Json \<Rightarrow> Inr (JStr [])
      | Json_Dict d \<Rightarrow> Inr (case d (str key) of None \<Rightarrow> JStr [] | Some v \<Rightarrow> v)
      | Json_Truthy \<Rightarrow> Inl AttributeError)"

definition get_sanitized :: "body \<Rightarrow> string \<Rightarrow> int \<Rightarrow> error + pystr" where
  "get_sanitized b key max_len =
     (case data_get b key of Inl e \<Rightarrow> Inl e | Inr v \<Rightarrow> sanitize_text v max_len)"

text \<open>The two \<open>try\<close> blocks of lines 240-243 and 249-252: any exception becomes \<open>None\<close>.\<close>

definition verify_payment :: "config \<Rightarrow> env \<Rightarrow> pystr \<Rightarrow> real option" where
  "verify_payment cfg e txid' =
     (case tx_amount_to_our_address_btc (explorer e) txid' (BTC_ADDRESS cfg) of
        Inl _ \<Rightarrow> None
      | Inr r \<Rightarrow> r)"

definition resolve_location :: "env \<Rightarrow> pystr \<Rightarrow> pystr \<Rightarrow> (pyfloat \<times> pyfloat) option" where
  "resolve_location e city' country' =
     (case geocode_city_country (geocoder e) city' country' of
        Inl _ \<Rightarrow> None
      | Inr r \<Rightarrow> r)"

text \<open>
  \<open>api_submit\<close>. The result is the response, or the exception that leaves the handler,
  together with the state afterwards. Of the exceptions of the \<open>INSERT\<close> only
  \<open>sqlite3.IntegrityError\<close> is caught (line 267); any other leaves the handler.
\<close>

definition api_submit :: "config \<Rightarrow> env \<Rightarrow> request \<Rightarrow> state \<Rightarrow> (error + response) \<times> state" where
  "api_submit cfg e rq st0 =
     (let ip = client_ip rq;
          (limited, hits) = rate_limited (now e) ip (ip_hits st0);
          st = st0\<lparr>ip_hits := hits\<rparr>
      in if limited then (Inr (Response_Error ''Too many requests. Try again later.'' 429), st)
      else
        case get_sanitized (json_body rq) ''txid'' 64 of Inl x \<Rightarrow> (Inl x, st) | Inr txid' \<Rightarrow>
        case get_sanitized (json_body rq) ''alias'' ALIAS_MAX of Inl x \<Rightarrow> (Inl x, st) | Inr alias' \<Rightarrow>
        case get_sanitized (json_body rq) ''city'' CITY_MAX of Inl x \<Rightarrow> (Inl x, st) | Inr city' \<Rightarrow>
        case get_sanitized (json_body rq) ''country'' COUNTRY_MAX of Inl x \<Rightarrow> (Inl x, st) | Inr country' \<Rightarrow>
        if \<not> valid_txid txid'
        then (Inr (Response_Error ''TXID must be a 64-character hex string.'' 400), st)
        else if city' = [] \<or> country' = []
        then (Inr (Response_Error ''City and country are required.'' 400), st)
        else
          case verify_payment cfg e txid' of
            None \<Rightarrow>
              (Inr (Response_Error
                 ''Could not verify a payment to the project address for this TXID.'' 400), st)
          | Some amount \<Rightarrow>
          case resolve_location e city' country' of
            None \<Rightarrow>
              (Inr (Response_Error
                 ''Could not geocode that city/country. Try a nearby major city.'' 400), st)
          | Some (la, lo) \<Rightarrow>
          case insert_entry txid' alias' city' country' la lo amount (utc_now_iso e) st of
            Inl x \<Rightarrow>
              if x = IntegrityError
              then (Inr (Response_Error ''That TXID is already in the log.'' 409), st)
              else (Inl x, st)
          | Inr st' \<Rightarrow>
              (Inr Response_Ok, snd (export_log_json cfg (export_iso e) (export_io e) st')))"

text \<open>
  A sequence of submissions handled one after the other, each with its own environment:
  the results in order, and the state at the end.
\<close>

fun run_submits ::
  "config \<Rightarrow> (env \<times> request) list \<Rightarrow> state \<Rightarrow> (error + response) list \<times> state" where
  "run_submits cfg [] st = ([], st)"
| "run_submits cfg (x # xs) st =
     (let (r, st') = api_submit cfg (fst x) (snd x) st;
          (rs, st'') = run_submits cfg xs st'
      in (r # rs, st''))"

section \<open>The scenario of the specification\<close>

text \<open>
  The concrete inputs of the specification's scenarios: the default configuration of
  \<open>app.py\<close>, the transaction id \<open>"a" * 64\<close>, an explorer that reports one output of
  150000 satoshis to the configured address, a geocoder that answers with the candidate
  (49.1659, -123.9401), and a submission for Nanaimo, Canada. The service starts with an
  empty table, no recorded attempts and no exported file.
\<close>

definition scenario_cfg :: config where
  "scenario_cfg =
     \<lparr>BTC_ADDRESS = str ''bc1qexampleaddressxxxxxxxxxxxxxxxxxxxxxx'',
      ORIGIN_LABEL = str ''Vancouver Island, BC, Canada''\<rparr>"

definition scenario_txid :: pystr where
  "scenario_txid = replicate 64 97"

definition scenario_env :: "real \<Rightarrow> io \<Rightarrow> env" where
  "scenario_env t fs =
     \<lparr>now = t,
      explorer = (\<lambda>_. Response 200 (Some \<lparr>vout = Some
         [\<lparr>scriptpubkey_address = Some (BTC_ADDRESS scenario_cfg),
           out_value = Some 150000\<rparr>]\<rparr>)),
      geocoder = (\<lambda>_. Response 200 (Some
         [\<lparr>cand_lat = Some (Fin 49.1659), cand_lon = Some (Fin (- 123.9401))\<rparr>])),
      utc_now_iso = str ''2024-01-01T00:00:00Z'',
      export_iso = str ''2024-01-01T00:00:00Z'',
      export_io = fs\<rparr>"

definition scenario_request :: "pystr \<Rightarrow> pystr \<Rightarrow> request" where
  "scenario_request txid' city' =
     \<lparr>x_forwarded_for = None,
      remote_addr = Some (str ''203.0.113.7''),
      json_body = Json_Dict (map_of
        [(str ''txid'', JStr txid'),
         (str ''alias'', JStr (str ''sam'')),
         (str ''city'', JStr city'),
         (str ''country'', JStr (str ''Canada''))])\<rparr>"

definition init_state :: state where
  "init_state = \<lparr>ip_hits = Map.empty, entries = [], sqlite_sequence = 0, log_json = Absent\<rparr>"

section \<open>The sanitizer meets its contract\<close>

declare ws_words.simps [simp del]

lemma ws_words_Nil: "ws_words [] = []"
  by (simp add: ws_words.simps)

lemma ws_words_space: "isspace c \<Longrightarrow> ws_words (c # cs) = ws_words cs"
  by (subst ws_words.simps, subst (2) ws_words.simps) simp

lemma ws_words_nonspace:
  "\<not> isspace c \<Longrightarrow>
   ws_words (c # cs) = (c # takeWhile (\<lambda>x. \<not> isspace x) cs) # ws_words (dropWhile (\<lambda>x. \<not> isspace x) cs)"
  by (subst ws_words.simps) simp

lemma ws_words_dropWhile: "ws_words (dropWhile isspace s) = ws_words s"
  by (induction s) (simp_all add: ws_words_space)

lemma ws_words_all_space: "list_all isspace s \<Longrightarrow> ws_words s = []"
  by (induction s) (simp_all add: ws_words_Nil ws_words_space)

lemma ws_words_append_space:
  "list_all isspace r \<Longrightarrow> ws_words (s @ r) = ws_words s"
proof (induction s rule: length_induct)
  case (1 s)
  show ?case
  proof (cases s)
    case Nil
    with 1 show ?thesis by (simp add: ws_words_all_space ws_words_Nil)
  next
    case (Cons c cs)
    show ?thesis
    proof (cases "isspace c")
      case True
      with 1 Cons show ?thesis by (simp add: ws_words_space)
    next
      case False
      let ?d = "dropWhile (\<lambda>x. \<not> isspace x) cs"
      have len: "length ?d < length s"
        using Cons length_dropWhile_le [of "\<lambda>x. \<not> isspace x" cs] by simp
      have IH: "ws_words (?d @ r) = ws_words ?d"
        using 1 len by blast
      show ?thesis
      proof (cases "\<forall>x\<in>set cs. \<not> isspace x")
        case True
        have tr: "takeWhile (\<lambda>x. \<not> isspace x) r = []"
          using 1(2) by (cases r) simp_all
        have dr: "dropWhile (\<lambda>x. \<not> isspace x) r = r"
          using 1(2) by (cases r) simp_all
        from True have eqs: "takeWhile (\<lambda>x. \<not> isspace x) (cs @ r) = cs"
          "dropWhile (\<lambda>x. \<not> isspace x) (cs @ r) = r"
          "takeWhile (\<lambda>x. \<not> isspace x) cs = cs"
          "dropWhile (\<lambda>x. \<not> isspace x) cs = []"
          by (simp_all add: takeWhile_append2 dropWhile_append2 tr dr)
        have "ws_words (c # cs @ r) = (c # cs) # ws_words r"
          by (subst ws_words_nonspace [OF False]) (simp only: eqs)
        moreover have "ws_words (c # cs) = (c # cs) # ws_words []"
          by (subst ws_words_nonspace [OF False]) (simp only: eqs)
        ultimately show ?thesis
          using Cons 1(2) by (simp add: ws_words_all_space ws_words_Nil)
      next
        case False
        then obtain x where "x \<in> set cs" "isspace x" by blast
        then have "takeWhile (\<lambda>x. \<not> isspace x) (cs @ r) = takeWhile (\<lambda>x. \<not> isspace x) cs"
          and "dropWhile (\<lambda>x. \<not> isspace x) (cs @ r) = ?d @ r"
          by (simp_all add: takeWhile_append1 dropWhile_append1)
        then show ?thesis
          using \<open>\<not> isspace c\<close> Cons IH by (simp add: ws_words_nonspace)
      qed
    qed
  qed
qed

lemma py_strip_decomp:
  "\<exists>r. dropWhile isspace s = py_strip s @ r \<and> list_all isspace r"
proof -
  let ?u = "dropWhile isspace s"
  have "?u = py_strip s @ rev (takeWhile isspace (rev ?u))"
    unfolding py_strip_def by (metis rev_append rev_rev_ident takeWhile_dropWhile_id)
  moreover have "list_all isspace (rev (takeWhile isspace (rev ?u)))"
    by (simp add: list_all_iff) (meson set_takeWhileD)
  ultimately show ?thesis by blast
qed

lemma ws_words_py_strip: "ws_words (py_strip s) = ws_words s"
proof -
  obtain r where "dropWhile isspace s = py_strip s @ r" "list_all isspace r"
    using py_strip_decomp by blast
  then show ?thesis
    using ws_words_append_space [of r "py_strip s"] ws_words_dropWhile [of s] by simp
qed

lemma py_strip_last: "py_strip s \<noteq> [] \<Longrightarrow> \<not> isspace (last (py_strip s))"
  unfolding py_strip_def
  by (metis (no_types, lifting) hd_dropWhile last_rev rev_is_Nil_conv)

lemma py_strip_hd: "py_strip s \<noteq> [] \<Longrightarrow> \<not> isspace (hd (py_strip s))"
proof -
  assume ne: "py_strip s \<noteq> []"
  obtain r where r: "dropWhile isspace s = py_strip s @ r"
    using py_strip_decomp by blast
  with ne have "dropWhile isspace s \<noteq> []" by simp
  then have "\<not> isspace (hd (dropWhile isspace s))" by (rule hd_dropWhile)
  with r ne show ?thesis by simp
qed

lemma join_space_Cons: "join_space ((c # w) # ws) = c # join_space (w # ws)"
  by (cases ws) simp_all

lemma ws_words_nonempty: "s \<noteq> [] \<Longrightarrow> \<not> isspace (last s) \<Longrightarrow> ws_words s \<noteq> []"
proof (induction s)
  case Nil then show ?case by simp
next
  case (Cons c cs)
  show ?case
  proof (cases "isspace c")
    case True
    with Cons show ?thesis by (cases cs) (simp_all add: ws_words_space)
  next
    case False then show ?thesis by (simp add: ws_words_nonspace)
  qed
qed

lemma re_sub_ws_words:
  "(t \<noteq> [] \<longrightarrow> \<not> isspace (last t)) \<Longrightarrow>
   re_sub_ws t = (if t \<noteq> [] \<and> isspace (hd t) then [SPACE] else []) @ join_space (ws_words t)"
proof (induction t rule: re_sub_ws.induct)
  case 1
  show ?case by (simp add: ws_words_Nil)
next
  case (2 c cs)
  show ?case
  proof (cases "isspace c")
    case True
    let ?d = "dropWhile isspace cs"
    from True 2(3) have cs: "cs \<noteq> []" "\<not> isspace (last cs)" by (auto split: if_splits)
    then have "last cs \<in> set cs" by simp
    with cs have dne: "?d \<noteq> []" by (auto simp: dropWhile_eq_Nil_conv)
    then have hd: "\<not> isspace (hd ?d)" by (rule hd_dropWhile)
    have "last ?d = last cs"
      using dne by (metis last_appendR takeWhile_dropWhile_id)
    with cs dne hd 2(1) [OF True] have "re_sub_ws ?d = join_space (ws_words ?d)" by simp
    then show ?thesis
      using True by (simp add: ws_words_space ws_words_dropWhile)
  next
    case False
    show ?thesis
    proof (cases cs)
      case Nil
      with False show ?thesis by (simp add: ws_words_nonspace ws_words_Nil)
    next
      case (Cons d ds)
      with 2(3) have last: "\<not> isspace (last cs)" by simp
      have IH: "re_sub_ws cs = (if isspace (hd cs) then [SPACE] else []) @ join_space (ws_words cs)"
        using 2(2) [OF False] last Cons by simp
      show ?thesis
      proof (cases "isspace d")
        case True
        obtain w ws where wws: "ws_words cs = w # ws"
          using ws_words_nonempty [of cs] last Cons by (cases "ws_words cs") auto
        with True False Cons IH show ?thesis
          by (simp add: ws_words_nonspace ws_words_space)
      next
        case d: False
        with False Cons IH show ?thesis
          by (simp add: ws_words_nonspace join_space_Cons)
      qed
    qed
  qed
qed

lemma re_sub_ws_py_strip: "re_sub_ws (py_strip s) = join_space (ws_words s)"
  using re_sub_ws_words [of "py_strip s"] py_strip_last [of s] py_strip_hd [of s]
  by (auto simp: ws_words_py_strip)

lemma sanitize_str_spec: "sanitize_str s (int n) = spec_sanitize s n"
  by (simp add: sanitize_str_def spec_sanitize_def py_slice_to_def re_sub_ws_py_strip)

lemma sanitize_str_Nil: "sanitize_str [] m = []"
  by (simp add: sanitize_str_def py_strip_def py_slice_to_def)

text \<open>
  Claim C9. For every raw string \<open>s\<close> and maximum length \<open>n\<close>, \<open>sanitize_text\<close>
  returns the words of \<open>s\<close> joined by single spaces (the leading and trailing whitespace
  trimmed, every inner run of whitespace collapsed to one space) and then cut to \<open>n\<close>
  characters, the cut coming last. It returns a value for every string and every
  integer bound, and an absent or null input gives the empty string. The function takes
  and returns values only: there is no state it could change.
\<close>

theorem sanitize_text_contract:
  "sanitize_text (JStr s) (int n) = Inr (spec_sanitize s n) \<and>
   (\<exists>r. sanitize_text (JStr s) m = Inr r) \<and>
   sanitize_text JFalsy m = Inr [] \<and>
   sanitize_text (JStr []) m = Inr []"
  by (simp add: sanitize_str_spec sanitize_str_Nil)

theorem sanitize_text_contract_witness:
  "sanitize_text (JStr (str ''  ab   c  d '')) 5 = Inr (str ''ab c '') \<and>
   sanitize_text JFalsy 64 = Inr []"
proof -
  have "sanitize_text (JStr (str ''  ab   c  d '')) (int 5)
          = Inr (spec_sanitize (str ''  ab   c  d '') 5)"
    and "sanitize_text JFalsy 64 = Inr []"
    using sanitize_text_contract [of "str ''  ab   c  d ''" 5 64] by blast+
  moreover have "spec_sanitize (str ''  ab   c  d '') 5 = str ''ab c ''"
    by (simp add: spec_sanitize_def str_def ws_words_space ws_words_nonspace ws_words_Nil
        isspace_def SPACE_def)
  ultimately show ?thesis by simp
qed

section \<open>The rate limiter\<close>

lemma rate_limited_eq:
  "rate_limited t0 ip h =
     (RATE_LIMIT_MAX < Suc (length (filter (\<lambda>t. t0 - t < RATE_LIMIT_WINDOW_S) (hits_of h ip))),
      h(ip \<mapsto> filter (\<lambda>t. t0 - t < RATE_LIMIT_WINDOW_S) (hits_of h ip) @ [t0]))"
  by (simp add: rate_limited_def Let_def)

lemma hits_of_upd: "hits_of (h(ip \<mapsto> xs)) ip = xs"
  by (simp add: hits_of_def)

lemma run_checks_length: "length (fst (run_checks ip ts h)) = length ts"
  by (induction ts arbitrary: h) (simp_all add: split_def Let_def)

lemma run_checks_window:
  "hits_of h ip = old @ recent \<Longrightarrow>
   \<forall>x\<in>set recent \<union> set ts. \<forall>u\<in>set ts. u - x < RATE_LIMIT_WINDOW_S \<Longrightarrow>
   k < length ts \<Longrightarrow> RATE_LIMIT_MAX \<le> length recent + k \<Longrightarrow>
   fst (run_checks ip ts h) ! k"
proof (induction ts arbitrary: h old recent k)
  case Nil
  then show ?case by simp
next
  case (Cons t ts)
  let ?P = "\<lambda>x. t - x < RATE_LIMIT_WINDOW_S"
  let ?h = "snd (rate_limited t ip h)"
  have keep: "filter ?P recent = recent"
    using Cons.prems(2) by (auto simp: filter_id_conv)
  have h': "hits_of ?h ip = filter ?P old @ (recent @ [t])"
    using Cons.prems(1) keep by (simp add: rate_limited_eq hits_of_upd)
  show ?case
  proof (cases k)
    case 0
    with Cons.prems(4) have "RATE_LIMIT_MAX \<le> length recent" by simp
    then show ?thesis
      using 0 Cons.prems(1) keep by (simp add: rate_limited_eq split_def Let_def)
  next
    case (Suc j)
    have "fst (run_checks ip ts ?h) ! j"
    proof (rule Cons.IH [OF h'])
      show "\<forall>x\<in>set (recent @ [t]) \<union> set ts. \<forall>u\<in>set ts. u - x < RATE_LIMIT_WINDOW_S"
        using Cons.prems(2) by auto
      show "j < length ts" using Cons.prems(3) Suc by simp
      show "RATE_LIMIT_MAX \<le> length (recent @ [t]) + j" using Cons.prems(4) Suc by simp
    qed
    then show ?thesis
      using Suc by (simp add: split_def Let_def)
  qed
qed

lemma run_checks_bound:
  "k < length ts \<Longrightarrow> length (hits_of h ip) + k < RATE_LIMIT_MAX \<Longrightarrow>
   \<not> fst (run_checks ip ts h) ! k"
proof (induction ts arbitrary: h k)
  case Nil
  then show ?case by simp
next
  case (Cons t ts)
  let ?P = "\<lambda>x. t - x < RATE_LIMIT_WINDOW_S"
  let ?h = "snd (rate_limited t ip h)"
  have len: "length (hits_of ?h ip) \<le> Suc (length (hits_of h ip))"
    by (simp add: rate_limited_eq hits_of_upd)
  show ?case
  proof (cases k)
    case 0
    have "fst (rate_limited t ip h)
            = (RATE_LIMIT_MAX < Suc (length (filter ?P (hits_of h ip))))"
      by (simp add: rate_limited_eq)
    moreover have "length (filter ?P (hits_of h ip)) \<le> length (hits_of h ip)"
      by simp
    ultimately have "\<not> fst (rate_limited t ip h)"
      using Cons.prems(2) 0 by linarith
    then show ?thesis
      using 0 by (simp add: split_def Let_def)
  next
    case (Suc j)
    have "\<not> fst (run_checks ip ts ?h) ! j"
      using Cons.prems Suc len by (intro Cons.IH) auto
    then show ?thesis using Suc by (simp add: split_def Let_def)
  qed
qed

subsection \<open>The limiter inside the submission handler\<close>

lemma valid_txid_encodable: "valid_txid t \<Longrightarrow> encodable t"
  by (auto simp: valid_txid_def encodable_def list_all_iff ishex_def is_surrogate_def)

lemma str_encodable: "encodable (str s)"
  unfolding encodable_def str_def list_all_iff is_surrogate_def
proof (intro ballI notI)
  fix c :: nat
  assume "c \<in> set (map of_char s)" and h: "55296 \<le> c \<and> c \<le> 57343"
  then obtain x :: char where "c = of_char x"
    by auto
  then have "c < 256"
    by simp
  with h show False
    by simp
qed

lemma export_log_json_frame:
  "entries (snd (export_log_json cfg ts fs st)) = entries st \<and>
   sqlite_sequence (snd (export_log_json cfg ts fs st)) = sqlite_sequence st \<and>
   ip_hits (snd (export_log_json cfg ts fs st)) = ip_hits st"
  by (cases fs) (simp_all add: export_log_json_def Let_def)

lemma next_id_ip_hits: "next_id (st\<lparr>ip_hits := h\<rparr>) = next_id st"
  by (simp add: next_id_def)

lemma api_submit_ip_hits:
  "ip_hits (snd (api_submit cfg e rq st)) = snd (rate_limited (now e) (client_ip rq) (ip_hits st))"
  unfolding api_submit_def Let_def
  by (simp add: insert_entry_def export_log_json_frame
      split: prod.split sum.split option.split pyfloat.split)

lemma api_submit_429:
  "fst (api_submit cfg e rq st) = Inr (Response_Error msg 429) \<longleftrightarrow>
     fst (rate_limited (now e) (client_ip rq) (ip_hits st)) \<and>
     msg = ''Too many requests. Try again later.''"
  unfolding api_submit_def Let_def
  by (auto simp add: insert_entry_def
      split: prod.split sum.split option.split pyfloat.split)

lemma run_submits_limited:
  "\<forall>x\<in>set xs. client_ip (snd x) = ip \<Longrightarrow>
   map (\<lambda>r. r = Inr (Response_Error ''Too many requests. Try again later.'' 429))
       (fst (run_submits cfg xs st))
   = fst (run_checks ip (map (\<lambda>x. now (fst x)) xs) (ip_hits st))"
proof (induction xs arbitrary: st)
  case Nil
  show ?case by simp
next
  case (Cons x xs)
  have ip: "client_ip (snd x) = ip" using Cons.prems by simp
  have hd: "(fst (api_submit cfg (fst x) (snd x) st)
              = Inr (Response_Error ''Too many requests. Try again later.'' 429))
            = fst (rate_limited (now (fst x)) ip (ip_hits st))"
    using api_submit_429 [of cfg "fst x" "snd x" st] ip by simp
  have tl: "ip_hits (snd (api_submit cfg (fst x) (snd x) st))
            = snd (rate_limited (now (fst x)) ip (ip_hits st))"
    using api_submit_ip_hits [of cfg "fst x" "snd x" st] ip by simp
  have IH: "map (\<lambda>r. r = Inr (Response_Error ''Too many requests. Try again later.'' 429))
       (fst (run_submits cfg xs (snd (api_submit cfg (fst x) (snd x) st))))
   = fst (run_checks ip (map (\<lambda>x. now (fst x)) xs) (snd (rate_limited (now (fst x)) ip (ip_hits st))))"
    using Cons.IH [of "snd (api_submit cfg (fst x) (snd x) st)"] Cons.prems tl by simp
  show ?case
    using hd IH by (simp add: split_def Let_def)
qed


subsection \<open>Evaluating the scenario\<close>

lemma nospace_py_strip: "\<forall>c\<in>set s. \<not> isspace c \<Longrightarrow> py_strip s = s"
proof -
  assume a: "\<forall>c\<in>set s. \<not> isspace c"
  then have "dropWhile isspace s = s" by (cases s) simp_all
  moreover have "dropWhile isspace (rev s) = rev s" using a by (cases "rev s") (simp, metis dropWhile.simps(2) list.set_intros(1) set_rev)
  ultimately show ?thesis by (simp add: py_strip_def)
qed

lemma nospace_re_sub_ws: "\<forall>c\<in>set s. \<not> isspace c \<Longrightarrow> re_sub_ws s = s"
  by (induction s) simp_all

lemma sanitize_str_nospace:
  "\<forall>c\<in>set s. \<not> isspace c \<Longrightarrow> sanitize_str s (int n) = take n s"
  by (simp add: sanitize_str_def nospace_py_strip nospace_re_sub_ws py_slice_to_def)

lemma scenario_client_ip: "client_ip (scenario_request t c) = str ''203.0.113.7''"
  by (simp add: client_ip_def scenario_request_def str_def)

lemma scenario_fields:
  "get_sanitized (json_body (scenario_request t c)) ''txid'' m = Inr (sanitize_str t m)"
  "get_sanitized (json_body (scenario_request t c)) ''alias'' m = Inr (sanitize_str (str ''sam'') m)"
  "get_sanitized (json_body (scenario_request t c)) ''city'' m = Inr (sanitize_str c m)"
  "get_sanitized (json_body (scenario_request t c)) ''country'' m = Inr (sanitize_str (str ''Canada'') m)"
  by (simp_all add: get_sanitized_def data_get_def scenario_request_def str_def)

lemma scenario_sanitized:
  "sanitize_str scenario_txid 64 = scenario_txid"
  "sanitize_str (str ''sam'') ALIAS_MAX = str ''sam''"
  "sanitize_str (str ''Nanaimo'') CITY_MAX = str ''Nanaimo''"
  "sanitize_str (str ''Canada'') COUNTRY_MAX = str ''Canada''"
  using sanitize_str_nospace [of scenario_txid 64] sanitize_str_nospace [of "str ''sam''" 30]
    sanitize_str_nospace [of "str ''Nanaimo''" 60] sanitize_str_nospace [of "str ''Canada''" 60]
  by (simp_all add: scenario_txid_def str_def isspace_def ALIAS_MAX_def CITY_MAX_def COUNTRY_MAX_def)

lemma scenario_valid_txid: "valid_txid scenario_txid"
  by (simp add: valid_txid_def scenario_txid_def list_all_iff ishex_def)

lemma scenario_verify: "verify_payment scenario_cfg (scenario_env t fs) x = Some 0.0015"
  by (simp add: verify_payment_def tx_amount_to_our_address_btc_def scenario_env_def)

lemma scenario_resolve:
  "resolve_location (scenario_env t fs) c k = Some (Fin 49.1659, Fin (- 123.9401))"
  by (simp add: resolve_location_def geocode_city_country_def scenario_env_def)


subsection \<open>Submissions of one origin\<close>

lemma run_submits_length: "length (fst (run_submits cfg xs st)) = length xs"
  by (induction xs arbitrary: st) (simp_all add: split_def Let_def)

lemma run_submits_nth_429:
  assumes "\<forall>x\<in>set xs. client_ip (snd x) = ip" and "k < length xs"
  shows "(fst (run_submits cfg xs st) ! k
            = Inr (Response_Error ''Too many requests. Try again later.'' 429))
         = fst (run_checks ip (map (\<lambda>x. now (fst x)) xs) (ip_hits st)) ! k"
proof -
  have "map (\<lambda>r. r = Inr (Response_Error ''Too many requests. Try again later.'' 429))
          (fst (run_submits cfg xs st)) ! k
        = fst (run_checks ip (map (\<lambda>x. now (fst x)) xs) (ip_hits st)) ! k"
    using run_submits_limited [OF assms(1)] by simp
  then show ?thesis
    using assms(2) by (simp add: run_submits_length)
qed

text \<open>
  Claim C5. One check keeps exactly the origin's timestamps less than 60 seconds old,
  appends the current time, stores the list and answers whether it now has more than 12
  elements; every timestamp older than 60 seconds is gone afterwards. For submissions of
  one origin whose times lie within one window of 60 seconds, the 13th and every later
  one is answered 429 (quota exceeded), whatever was recorded before; from an origin with
  nothing recorded the first 12 are not. Once every recorded timestamp of the origin is at
  least 60 seconds old, a submission is not answered 429: it goes on to validation.
\<close>

theorem rate_limiter_sliding_window:
  "rate_limited t0 ip h =
     (12 < length (filter (\<lambda>t. t0 - t < 60) (hits_of h ip) @ [t0]),
      h(ip \<mapsto> filter (\<lambda>t. t0 - t < 60) (hits_of h ip) @ [t0])) \<and>
   (\<forall>t\<in>set (hits_of h ip). 60 < t0 - t \<longrightarrow> t \<notin> set (hits_of (snd (rate_limited t0 ip h)) ip)) \<and>
   ((\<forall>x\<in>set xs. client_ip (snd x) = ip) \<and>
    (\<forall>x\<in>set xs. \<forall>y\<in>set xs. now (fst y) - now (fst x) < 60) \<longrightarrow>
      (\<forall>k. 12 \<le> k \<and> k < length xs \<longrightarrow>
         fst (run_submits cfg xs st) ! k
           = Inr (Response_Error ''Too many requests. Try again later.'' 429))) \<and>
   ((\<forall>x\<in>set xs. client_ip (snd x) = ip) \<and> hits_of (ip_hits st) ip = [] \<longrightarrow>
      (\<forall>k. k < 12 \<and> k < length xs \<longrightarrow>
         fst (run_submits cfg xs st) ! k
           \<noteq> Inr (Response_Error ''Too many requests. Try again later.'' 429))) \<and>
   ((\<forall>t\<in>set (hits_of (ip_hits st) (client_ip rq)). 60 \<le> now e - t) \<longrightarrow>
      (\<forall>msg. fst (api_submit cfg e rq st) \<noteq> Inr (Response_Error msg 429)))"
proof (intro conjI impI allI)
  show "rate_limited t0 ip h =
     (12 < length (filter (\<lambda>t. t0 - t < 60) (hits_of h ip) @ [t0]),
      h(ip \<mapsto> filter (\<lambda>t. t0 - t < 60) (hits_of h ip) @ [t0]))"
    by (simp add: rate_limited_eq RATE_LIMIT_MAX_def RATE_LIMIT_WINDOW_S_def)
next
  show "\<forall>t\<in>set (hits_of h ip). 60 < t0 - t \<longrightarrow> t \<notin> set (hits_of (snd (rate_limited t0 ip h)) ip)"
    by (auto simp: rate_limited_eq hits_of_upd RATE_LIMIT_WINDOW_S_def)
next
  fix k
  assume a: "(\<forall>x\<in>set xs. client_ip (snd x) = ip) \<and>
    (\<forall>x\<in>set xs. \<forall>y\<in>set xs. now (fst y) - now (fst x) < 60)"
    and k: "12 \<le> k \<and> k < length xs"
  have "fst (run_checks ip (map (\<lambda>x. now (fst x)) xs) (ip_hits st)) ! k"
  proof (rule run_checks_window [where old = "hits_of (ip_hits st) ip" and recent = "[]"])
    show "hits_of (ip_hits st) ip = hits_of (ip_hits st) ip @ []" by simp
    show "\<forall>x\<in>set [] \<union> set (map (\<lambda>x. now (fst x)) xs).
            \<forall>u\<in>set (map (\<lambda>x. now (fst x)) xs). u - x < RATE_LIMIT_WINDOW_S"
      using a by (auto simp: RATE_LIMIT_WINDOW_S_def)
    show "k < length (map (\<lambda>x. now (fst x)) xs)" using k by simp
    show "RATE_LIMIT_MAX \<le> length ([]::real list) + k" using k by (simp add: RATE_LIMIT_MAX_def)
  qed
  then show "fst (run_submits cfg xs st) ! k
           = Inr (Response_Error ''Too many requests. Try again later.'' 429)"
    using run_submits_nth_429 [of xs ip k cfg st] a k by simp
next
  fix k
  assume a: "(\<forall>x\<in>set xs. client_ip (snd x) = ip) \<and> hits_of (ip_hits st) ip = []"
    and k: "k < 12 \<and> k < length xs"
  have "\<not> fst (run_checks ip (map (\<lambda>x. now (fst x)) xs) (ip_hits st)) ! k"
    using a k by (intro run_checks_bound) (simp_all add: RATE_LIMIT_MAX_def)
  then show "fst (run_submits cfg xs st) ! k
           \<noteq> Inr (Response_Error ''Too many requests. Try again later.'' 429)"
    using run_submits_nth_429 [of xs ip k cfg st] a k by simp
next
  fix msg
  assume a: "\<forall>t\<in>set (hits_of (ip_hits st) (client_ip rq)). 60 \<le> now e - t"
  then have "filter (\<lambda>t. now e - t < RATE_LIMIT_WINDOW_S) (hits_of (ip_hits st) (client_ip rq)) = []"
    by (auto simp: filter_empty_conv RATE_LIMIT_WINDOW_S_def)
  then have "\<not> fst (rate_limited (now e) (client_ip rq) (ip_hits st))"
    by (simp add: rate_limited_eq RATE_LIMIT_MAX_def)
  then show "fst (api_submit cfg e rq st) \<noteq> Inr (Response_Error msg 429)"
    by (simp add: api_submit_429)
qed

theorem rate_limiter_sliding_window_witness:
  "rate_limited 100 (str ''203.0.113.7'') (Map.empty(str ''203.0.113.7'' \<mapsto> [0, 50]))
     = (False, Map.empty(str ''203.0.113.7'' \<mapsto> [50, 100])) \<and>
   (0::real) \<notin> set (hits_of (snd (rate_limited 100 (str ''203.0.113.7'')
                       (Map.empty(str ''203.0.113.7'' \<mapsto> [0, 50])))) (str ''203.0.113.7'')) \<and>
   fst (run_submits scenario_cfg
          (map (\<lambda>t. (scenario_env t Io_Ok, scenario_request scenario_txid (str ''Nanaimo'')))
             [0, 1, 2, 3, 4, 5, 6, 7, 8, 9, 10, 11, 59]) init_state) ! 12
     = Inr (Response_Error ''Too many requests. Try again later.'' 429) \<and>
   fst (run_submits scenario_cfg
          (map (\<lambda>t. (scenario_env t Io_Ok, scenario_request scenario_txid (str ''Nanaimo'')))
             [0, 1, 2, 3, 4, 5, 6, 7, 8, 9, 10, 11, 59]) init_state) ! 11
     \<noteq> Inr (Response_Error ''Too many requests. Try again later.'' 429) \<and>
   (\<forall>msg. fst (api_submit scenario_cfg (scenario_env 119 Io_Ok)
              (scenario_request scenario_txid (str ''Nanaimo''))
              (init_state\<lparr>ip_hits := Map.empty(str ''203.0.113.7'' \<mapsto>
                 [0, 1, 2, 3, 4, 5, 6, 7, 8, 9, 10, 11, 59])\<rparr>))
      \<noteq> Inr (Response_Error msg 429))"
proof -
  let ?ip = "str ''203.0.113.7''"
  let ?h = "Map.empty(?ip \<mapsto> [0, 50::real])"
  let ?xs = "map (\<lambda>t. (scenario_env t Io_Ok, scenario_request scenario_txid (str ''Nanaimo'')))
             [0, 1, 2, 3, 4, 5, 6, 7, 8, 9, 10, 11, 59]"
  let ?st = "init_state\<lparr>ip_hits := Map.empty(?ip \<mapsto> [0, 1, 2, 3, 4, 5, 6, 7, 8, 9, 10, 11, 59])\<rparr>"
  note T = rate_limiter_sliding_window [where ?t0.0 = 100 and ip = ?ip and h = ?h
      and xs = ?xs and cfg = scenario_cfg and st = init_state
      and rq = "scenario_request scenario_txid (str ''Nanaimo'')"
      and e = "scenario_env 119 Io_Ok"]
  note T2 = rate_limiter_sliding_window [where ?t0.0 = 100 and ip = ?ip and h = ?h
      and xs = ?xs and cfg = scenario_cfg and st = ?st
      and rq = "scenario_request scenario_txid (str ''Nanaimo'')"
      and e = "scenario_env 119 Io_Ok"]
  have ips: "\<forall>x\<in>set ?xs. client_ip (snd x) = ?ip"
    by (simp add: scenario_client_ip)
  have win: "\<forall>x\<in>set ?xs. \<forall>y\<in>set ?xs. now (fst y) - now (fst x) < 60"
    by (simp add: scenario_env_def)
  have fresh: "hits_of (ip_hits init_state) ?ip = []"
    by (simp add: init_state_def hits_of_def)
  have old: "\<forall>t\<in>set (hits_of (ip_hits ?st)
                (client_ip (scenario_request scenario_txid (str ''Nanaimo'')))).
               60 \<le> now (scenario_env 119 Io_Ok) - t"
    by (simp add: scenario_client_ip hits_of_def scenario_env_def)
  have a: "rate_limited 100 ?ip ?h = (False, Map.empty(?ip \<mapsto> [50, 100]))"
    using T [THEN conjunct1] by (simp add: hits_of_def)
  have b: "(0::real) \<notin> set (hits_of (snd (rate_limited 100 ?ip ?h)) ?ip)"
    using T [THEN conjunct2, THEN conjunct1] by (simp add: hits_of_def)
  have len: "12 \<le> (12::nat) \<and> 12 < length ?xs" "11 < (12::nat) \<and> 11 < length ?xs"
    by simp_all
  have c: "fst (run_submits scenario_cfg ?xs init_state) ! 12
     = Inr (Response_Error ''Too many requests. Try again later.'' 429)"
    by (rule T [THEN conjunct2, THEN conjunct2, THEN conjunct1, THEN mp,
          OF conjI [OF ips win], THEN spec, THEN mp, OF len(1)])
  have d: "fst (run_submits scenario_cfg ?xs init_state) ! 11
     \<noteq> Inr (Response_Error ''Too many requests. Try again later.'' 429)"
    by (rule T [THEN conjunct2, THEN conjunct2, THEN conjunct2, THEN conjunct1, THEN mp,
          OF conjI [OF ips fresh], THEN spec, THEN mp, OF len(2)])
  have e: "\<forall>msg. fst (api_submit scenario_cfg (scenario_env 119 Io_Ok)
              (scenario_request scenario_txid (str ''Nanaimo'')) ?st)
      \<noteq> Inr (Response_Error msg 429)"
    by (rule T2 [THEN conjunct2, THEN conjunct2, THEN conjunct2, THEN conjunct2, THEN mp,
          OF old])
  show ?thesis
    by (intro conjI) (rule a b c d e)+
qed

section \<open>Payment verification\<close>

lemma sum_outputs_spec: "sum_outputs outs addr sats = sats + spec_paid addr outs"
  by (induction outs arbitrary: sats) (simp_all add: spec_paid_def)

subsection \<open>The accepted submission\<close>

lemma api_submit_accept:
  assumes "\<not> fst (rate_limited (now e) (client_ip rq) (ip_hits st))"
    and "get_sanitized (json_body rq) ''txid'' 64 = Inr t"
    and "get_sanitized (json_body rq) ''alias'' ALIAS_MAX = Inr a"
    and "get_sanitized (json_body rq) ''city'' CITY_MAX = Inr c"
    and "get_sanitized (json_body rq) ''country'' COUNTRY_MAX = Inr k"
    and "valid_txid t" and "c \<noteq> []" and "k \<noteq> []"
    and "verify_payment cfg e t = Some amt"
    and "resolve_location e c k = Some (Fin x, Fin y)"
    and "t \<notin> set (map txid (entries st))"
    and "encodable a \<and> encodable c \<and> encodable k \<and> encodable (utc_now_iso e)"
  shows "fst (api_submit cfg e rq st) = Inr Response_Ok \<and>
         entries (snd (api_submit cfg e rq st)) = entries st @
           [\<lparr>row_id = next_id st, txid = t, alias_text = Some a, city = c, country = k,
             lat = x, lng = y, amount_btc = amt, iso_date = utc_now_iso e\<rparr>]"
  using assms unfolding api_submit_def Let_def
  by (auto simp add: insert_entry_def export_log_json_frame next_id_ip_hits
      valid_txid_encodable split: prod.split)

lemma scenario_run:
  "fst (api_submit scenario_cfg (scenario_env t fs)
          (scenario_request scenario_txid (str ''Nanaimo'')) init_state) = Inr Response_Ok \<and>
   entries (snd (api_submit scenario_cfg (scenario_env t fs)
          (scenario_request scenario_txid (str ''Nanaimo'')) init_state))
     = [\<lparr>row_id = 1, txid = scenario_txid, alias_text = Some (str ''sam''),
         city = str ''Nanaimo'', country = str ''Canada'', lat = 49.1659, lng = - 123.9401,
         amount_btc = 0.0015, iso_date = str ''2024-01-01T00:00:00Z''\<rparr>]"
proof -
  have nl: "\<not> fst (rate_limited (now (scenario_env t fs))
              (client_ip (scenario_request scenario_txid (str ''Nanaimo''))) (ip_hits init_state))"
    by (simp add: rate_limited_eq init_state_def hits_of_def RATE_LIMIT_MAX_def)
  have ne: "str ''Nanaimo'' \<noteq> []" "str ''Canada'' \<noteq> []" by (simp_all add: str_def)
  have fr: "scenario_txid \<notin> set (map txid (entries init_state))"
    by (simp add: init_state_def)
  have enc: "encodable (str ''sam'') \<and> encodable (str ''Nanaimo'') \<and>
      encodable (str ''Canada'') \<and> encodable (utc_now_iso (scenario_env t fs))"
    by (simp add: str_encodable scenario_env_def)
  have "next_id init_state = 1" "entries init_state = []"
    and "utc_now_iso (scenario_env t fs) = str ''2024-01-01T00:00:00Z''"
    by (simp_all add: next_id_def init_state_def scenario_env_def)
  then show ?thesis
    using api_submit_accept [OF nl scenario_fields(1) scenario_fields(2) scenario_fields(3)
        scenario_fields(4), unfolded scenario_sanitized, OF scenario_valid_txid ne
        scenario_verify scenario_resolve fr enc]
    by simp
qed


subsection \<open>The verifier\<close>

lemma verify_payment_eq:
  "verify_payment cfg e t =
     (case explorer e t of
        Raises \<Rightarrow> None
      | Response status_code body \<Rightarrow>
          (case body of
             None \<Rightarrow> None
           | Some b \<Rightarrow>
               if status_code = 200 \<and>
                  0 < spec_paid (BTC_ADDRESS cfg) (case vout b of None \<Rightarrow> [] | Some vs \<Rightarrow> vs)
               then Some (real_of_int
                      (spec_paid (BTC_ADDRESS cfg) (case vout b of None \<Rightarrow> [] | Some vs \<Rightarrow> vs))
                    / 100000000)
               else None))"
  by (simp add: verify_payment_def tx_amount_to_our_address_btc_def sum_outputs_spec Let_def
      split: http.split option.split)

text \<open>
  Claim C3. For every transaction id and configured address, the verifier (the call of
  \<open>tx_amount_to_our_address_btc\<close> inside the \<open>try\<close> of \<open>api_submit\<close>) adds up the
  value of every output whose address equals the configured one. With status 200, a
  readable body and a positive sum it succeeds with the sum divided by 10^8; with a sum
  that is not positive, an explorer that raises, a status other than 200 or an unreadable
  body it answers \<open>None\<close> (unverified). It always answers: no exception leaves it. In
  the scenario (one output of 150000 satoshis to the address) the submission is accepted
  and the stored amount is 0.0015. The division is taken in the reals.
\<close>

theorem payment_verifier:
  "(explorer e t = Response 200 (Some b) \<and>
    0 < spec_paid (BTC_ADDRESS cfg) (case vout b of None \<Rightarrow> [] | Some vs \<Rightarrow> vs) \<longrightarrow>
      verify_payment cfg e t
        = Some (real_of_int
             (spec_paid (BTC_ADDRESS cfg) (case vout b of None \<Rightarrow> [] | Some vs \<Rightarrow> vs))
             / 100000000)) \<and>
   (explorer e t = Response 200 (Some b) \<and>
    spec_paid (BTC_ADDRESS cfg) (case vout b of None \<Rightarrow> [] | Some vs \<Rightarrow> vs) \<le> 0 \<longrightarrow>
      verify_payment cfg e t = None) \<and>
   (explorer e t = Raises \<longrightarrow> verify_payment cfg e t = None) \<and>
   (explorer e t = Response status_code body \<and> status_code \<noteq> 200 \<longrightarrow>
      verify_payment cfg e t = None) \<and>
   (explorer e t = Response 200 None \<longrightarrow> verify_payment cfg e t = None) \<and>
   fst (api_submit scenario_cfg (scenario_env t0 fs)
          (scenario_request scenario_txid (str ''Nanaimo'')) init_state) = Inr Response_Ok \<and>
   map amount_btc (entries (snd (api_submit scenario_cfg (scenario_env t0 fs)
          (scenario_request scenario_txid (str ''Nanaimo'')) init_state))) = [0.0015]"
  by (simp add: verify_payment_eq scenario_run split: option.split)

theorem payment_verifier_witness:
  "verify_payment scenario_cfg (scenario_env 0 Io_Ok) scenario_txid = Some 0.0015 \<and>
   verify_payment scenario_cfg ((scenario_env 0 Io_Ok)\<lparr>explorer := \<lambda>_. Raises\<rparr>) scenario_txid
     = None \<and>
   verify_payment scenario_cfg
     ((scenario_env 0 Io_Ok)\<lparr>explorer := \<lambda>_. Response 404 None\<rparr>) scenario_txid = None \<and>
   verify_payment scenario_cfg
     ((scenario_env 0 Io_Ok)\<lparr>explorer := \<lambda>_. Response 200 (Some \<lparr>vout = Some
         [\<lparr>scriptpubkey_address = Some (str ''bc1qsomeoneelse''),
           out_value = Some 150000\<rparr>]\<rparr>)\<rparr>) scenario_txid = None"
proof -
  let ?b = "\<lparr>vout = Some [\<lparr>scriptpubkey_address = Some (BTC_ADDRESS scenario_cfg),
                             out_value = Some 150000\<rparr>]\<rparr>"
  let ?b' = "\<lparr>vout = Some [\<lparr>scriptpubkey_address = Some (str ''bc1qsomeoneelse''),
                              out_value = Some 150000\<rparr>]\<rparr>"
  have 1: "verify_payment scenario_cfg (scenario_env 0 Io_Ok) scenario_txid = Some 0.0015"
    using payment_verifier [where e = "scenario_env 0 Io_Ok" and t = scenario_txid
        and b = ?b and cfg = scenario_cfg, THEN conjunct1]
    by (simp add: scenario_env_def spec_paid_def)
  have 2: "verify_payment scenario_cfg ((scenario_env 0 Io_Ok)\<lparr>explorer := \<lambda>_. Raises\<rparr>)
             scenario_txid = None"
    using payment_verifier [where e = "(scenario_env 0 Io_Ok)\<lparr>explorer := \<lambda>_. Raises\<rparr>"
        and t = scenario_txid and cfg = scenario_cfg,
        THEN conjunct2, THEN conjunct2, THEN conjunct1]
    by simp
  have 3: "verify_payment scenario_cfg
     ((scenario_env 0 Io_Ok)\<lparr>explorer := \<lambda>_. Response 404 None\<rparr>) scenario_txid = None"
    using payment_verifier [where e = "(scenario_env 0 Io_Ok)\<lparr>explorer := \<lambda>_. Response 404 None\<rparr>"
        and t = scenario_txid and cfg = scenario_cfg and status_code = 404 and body = None,
        THEN conjunct2, THEN conjunct2, THEN conjunct2, THEN conjunct1]
    by simp
  have 4: "verify_payment scenario_cfg
     ((scenario_env 0 Io_Ok)\<lparr>explorer := \<lambda>_. Response 200 (Some ?b')\<rparr>) scenario_txid = None"
    using payment_verifier [where e = "(scenario_env 0 Io_Ok)\<lparr>explorer := \<lambda>_. Response 200 (Some ?b')\<rparr>"
        and t = scenario_txid and cfg = scenario_cfg and b = ?b',
        THEN conjunct2, THEN conjunct1]
    by (simp add: spec_paid_def scenario_cfg_def str_def)
  show ?thesis
    by (intro conjI) (rule 1 2 3 4)+
qed

section \<open>The submission handler, gate by gate\<close>

lemma api_submit_cases:
  "(case api_submit cfg e rq st of (r, st') \<Rightarrow>
     if r = Inr Response_Ok
     then \<not> fst (rate_limited (now e) (client_ip rq) (ip_hits st)) \<and>
       (\<exists>t a c k x y amt.
          get_sanitized (json_body rq) ''txid'' 64 = Inr t \<and>
          get_sanitized (json_body rq) ''alias'' ALIAS_MAX = Inr a \<and>
          get_sanitized (json_body rq) ''city'' CITY_MAX = Inr c \<and>
          get_sanitized (json_body rq) ''country'' COUNTRY_MAX = Inr k \<and>
          valid_txid t \<and> c \<noteq> [] \<and> k \<noteq> [] \<and>
          verify_payment cfg e t = Some amt \<and>
          resolve_location e c k = Some (Fin x, Fin y) \<and>
          t \<notin> set (map txid (entries st)) \<and>
          st' = snd (export_log_json cfg (export_iso e) (export_io e)
                  (st\<lparr>ip_hits := snd (rate_limited (now e) (client_ip rq) (ip_hits st)),
                      entries := entries st @
                        [\<lparr>row_id = next_id st, txid = t, alias_text = Some a, city = c,
                          country = k, lat = x, lng = y, amount_btc = amt,
                          iso_date = utc_now_iso e\<rparr>],
                      sqlite_sequence := next_id st\<rparr>)))
     else st' = st\<lparr>ip_hits := snd (rate_limited (now e) (client_ip rq) (ip_hits st))\<rparr>)"
  unfolding api_submit_def Let_def
  by (simp add: insert_entry_def next_id_ip_hits
      split: prod.split sum.split option.split pyfloat.split)

lemma api_submit_rejected:
  "fst (api_submit cfg e rq st) \<noteq> Inr Response_Ok \<Longrightarrow>
   snd (api_submit cfg e rq st)
     = st\<lparr>ip_hits := snd (rate_limited (now e) (client_ip rq) (ip_hits st))\<rparr>"
  using api_submit_cases [where cfg = cfg and e = e and rq = rq and st = st] by (simp add: split_def)

lemma api_submit_Ok_D:
  assumes "fst (api_submit cfg e rq st) = Inr Response_Ok"
  obtains t a c k x y amt where
    "get_sanitized (json_body rq) ''txid'' 64 = Inr t"
    "get_sanitized (json_body rq) ''alias'' ALIAS_MAX = Inr a"
    "get_sanitized (json_body rq) ''city'' CITY_MAX = Inr c"
    "get_sanitized (json_body rq) ''country'' COUNTRY_MAX = Inr k"
    "valid_txid t" "c \<noteq> []" "k \<noteq> []"
    "verify_payment cfg e t = Some amt"
    "resolve_location e c k = Some (Fin x, Fin y)"
    "t \<notin> set (map txid (entries st))"
    "snd (api_submit cfg e rq st) = snd (export_log_json cfg (export_iso e) (export_io e)
                  (st\<lparr>ip_hits := snd (rate_limited (now e) (client_ip rq) (ip_hits st)),
                      entries := entries st @
                        [\<lparr>row_id = next_id st, txid = t, alias_text = Some a, city = c,
                          country = k, lat = x, lng = y, amount_btc = amt,
                          iso_date = utc_now_iso e\<rparr>],
                      sqlite_sequence := next_id st\<rparr>))"
    "\<not> fst (rate_limited (now e) (client_ip rq) (ip_hits st))"
  using api_submit_cases [where cfg = cfg and e = e and rq = rq and st = st] assms by (auto simp: split_def)

lemma resolve_location_eq:
  "resolve_location e c k =
     (case geocoder e (c @ str '', '' @ k) of
        Raises \<Rightarrow> None
      | Response status_code body \<Rightarrow>
          if status_code \<noteq> 200 then None
          else (case body of
                  None \<Rightarrow> None
                | Some [] \<Rightarrow> None
                | Some (d # _) \<Rightarrow>
                    (case (cand_lat d, cand_lon d) of
                       (Some la, Some lo) \<Rightarrow> Some (la, lo)
                     | _ \<Rightarrow> None)))"
  by (simp add: resolve_location_def geocode_city_country_def Let_def
      split: http.split option.split list.split)


lemma api_submit_gates:
  assumes "\<not> fst (rate_limited (now e) (client_ip rq) (ip_hits st))"
    and "get_sanitized (json_body rq) ''txid'' 64 = Inr t"
    and "get_sanitized (json_body rq) ''alias'' ALIAS_MAX = Inr a"
    and "get_sanitized (json_body rq) ''city'' CITY_MAX = Inr c"
    and "get_sanitized (json_body rq) ''country'' COUNTRY_MAX = Inr k"
  shows "fst (api_submit cfg e rq st) =
     (if \<not> valid_txid t
      then Inr (Response_Error ''TXID must be a 64-character hex string.'' 400)
      else if c = [] \<or> k = []
      then Inr (Response_Error ''City and country are required.'' 400)
      else case verify_payment cfg e t of
        None \<Rightarrow> Inr (Response_Error
                  ''Could not verify a payment to the project address for this TXID.'' 400)
      | Some amt \<Rightarrow>
        (case resolve_location e c k of
           None \<Rightarrow> Inr (Response_Error
                  ''Could not geocode that city/country. Try a nearby major city.'' 400)
         | Some (la, lo) \<Rightarrow>
             if \<not> (encodable a \<and> encodable c \<and> encodable k \<and>
                     encodable (utc_now_iso e))
             then Inl UnicodeEncodeError
             else if la = NaN \<or> lo = NaN \<or> t \<in> set (map txid (entries st))
             then Inr (Response_Error ''That TXID is already in the log.'' 409)
             else Inr Response_Ok))"
  using assms unfolding api_submit_def Let_def
  by (auto simp add: insert_entry_def valid_txid_encodable
      split: prod.split option.split pyfloat.split)

lemma api_submit_export_io:
  "fst (api_submit cfg (e\<lparr>export_io := fs\<rparr>) rq st) = fst (api_submit cfg e rq st) \<and>
   entries (snd (api_submit cfg (e\<lparr>export_io := fs\<rparr>) rq st))
     = entries (snd (api_submit cfg e rq st))"
  unfolding api_submit_def Let_def
  by (simp add: export_log_json_frame verify_payment_def resolve_location_def
      split: prod.split sum.split option.split)


text \<open>
  Claim C4. Whenever a submission is not accepted, the state afterwards is the state
  before with the origin's attempt recorded by the rate limiter and nothing else changed:
  the table, its id counter and the exported file are as they were, so no partial or
  placeholder entry exists. A submission over quota is answered 429; one that passes the
  rate check and fails validation, payment verification or location resolution is
  answered 400; and a geocoder that raises (an error, a timeout), answers with another
  status, with an unreadable body or with an empty list leaves the location unresolved.
\<close>

theorem rejection_changes_nothing:
  "(fst (api_submit cfg e rq st) \<noteq> Inr Response_Ok \<longrightarrow>
      snd (api_submit cfg e rq st)
        = st\<lparr>ip_hits := snd (rate_limited (now e) (client_ip rq) (ip_hits st))\<rparr>) \<and>
   (fst (rate_limited (now e) (client_ip rq) (ip_hits st)) \<longrightarrow>
      fst (api_submit cfg e rq st)
        = Inr (Response_Error ''Too many requests. Try again later.'' 429)) \<and>
   (\<not> fst (rate_limited (now e) (client_ip rq) (ip_hits st)) \<and>
    get_sanitized (json_body rq) ''txid'' 64 = Inr t \<and>
    get_sanitized (json_body rq) ''alias'' ALIAS_MAX = Inr a \<and>
    get_sanitized (json_body rq) ''city'' CITY_MAX = Inr c \<and>
    get_sanitized (json_body rq) ''country'' COUNTRY_MAX = Inr k \<and>
    (\<not> valid_txid t \<or> c = [] \<or> k = [] \<or> verify_payment cfg e t = None \<or>
     resolve_location e c k = None) \<longrightarrow>
      (\<exists>msg. fst (api_submit cfg e rq st) = Inr (Response_Error msg 400))) \<and>
   (geocoder e (c @ str '', '' @ k) = Raises \<or>
    geocoder e (c @ str '', '' @ k) = Response 200 None \<or>
    geocoder e (c @ str '', '' @ k) = Response 200 (Some []) \<or>
    (geocoder e (c @ str '', '' @ k) = Response status_code body \<and> status_code \<noteq> 200) \<longrightarrow>
      resolve_location e c k = None)"
proof (intro conjI impI)
  assume "fst (api_submit cfg e rq st) \<noteq> Inr Response_Ok"
  then show "snd (api_submit cfg e rq st)
        = st\<lparr>ip_hits := snd (rate_limited (now e) (client_ip rq) (ip_hits st))\<rparr>"
    by (rule api_submit_rejected)
next
  assume "fst (rate_limited (now e) (client_ip rq) (ip_hits st))"
  then show "fst (api_submit cfg e rq st)
        = Inr (Response_Error ''Too many requests. Try again later.'' 429)"
    by (simp add: api_submit_429)
next
  assume a: "\<not> fst (rate_limited (now e) (client_ip rq) (ip_hits st)) \<and>
    get_sanitized (json_body rq) ''txid'' 64 = Inr t \<and>
    get_sanitized (json_body rq) ''alias'' ALIAS_MAX = Inr a \<and>
    get_sanitized (json_body rq) ''city'' CITY_MAX = Inr c \<and>
    get_sanitized (json_body rq) ''country'' COUNTRY_MAX = Inr k \<and>
    (\<not> valid_txid t \<or> c = [] \<or> k = [] \<or> verify_payment cfg e t = None \<or>
     resolve_location e c k = None)"
  then have "fst (api_submit cfg e rq st) =
     (if \<not> valid_txid t
      then Inr (Response_Error ''TXID must be a 64-character hex string.'' 400)
      else if c = [] \<or> k = []
      then Inr (Response_Error ''City and country are required.'' 400)
      else case verify_payment cfg e t of
        None \<Rightarrow> Inr (Response_Error
                  ''Could not verify a payment to the project address for this TXID.'' 400)
      | Some amt \<Rightarrow>
        (case resolve_location e c k of
           None \<Rightarrow> Inr (Response_Error
                  ''Could not geocode that city/country. Try a nearby major city.'' 400)
         | Some (la, lo) \<Rightarrow>
             if \<not> (encodable a \<and> encodable c \<and> encodable k \<and>
                     encodable (utc_now_iso e))
             then Inl UnicodeEncodeError
             else if la = NaN \<or> lo = NaN \<or> t \<in> set (map txid (entries st))
             then Inr (Response_Error ''That TXID is already in the log.'' 409)
             else Inr Response_Ok))"
    by (intro api_submit_gates) simp_all
  with a show "\<exists>msg. fst (api_submit cfg e rq st) = Inr (Response_Error msg 400)"
    by (auto split: option.splits)
next
  assume "geocoder e (c @ str '', '' @ k) = Raises \<or>
    geocoder e (c @ str '', '' @ k) = Response 200 None \<or>
    geocoder e (c @ str '', '' @ k) = Response 200 (Some []) \<or>
    (geocoder e (c @ str '', '' @ k) = Response status_code body \<and> status_code \<noteq> 200)"
  then show "resolve_location e c k = None"
    by (auto simp: resolve_location_eq)
qed

theorem rejection_changes_nothing_witness:
  "(\<exists>msg. fst (api_submit scenario_cfg ((scenario_env 0 Io_Ok)\<lparr>geocoder := \<lambda>_. Raises\<rparr>)
              (scenario_request scenario_txid (str ''Nanaimo'')) init_state)
            = Inr (Response_Error msg 400)) \<and>
   snd (api_submit scenario_cfg ((scenario_env 0 Io_Ok)\<lparr>geocoder := \<lambda>_. Raises\<rparr>)
              (scenario_request scenario_txid (str ''Nanaimo'')) init_state)
     = init_state\<lparr>ip_hits := Map.empty(str ''203.0.113.7'' \<mapsto> [0])\<rparr>"
proof -
  let ?e = "(scenario_env 0 Io_Ok)\<lparr>geocoder := \<lambda>_. Raises\<rparr>"
  let ?rq = "scenario_request scenario_txid (str ''Nanaimo'')"
  note T = rejection_changes_nothing [where cfg = scenario_cfg and e = ?e and rq = ?rq
      and st = init_state and t = scenario_txid and a = "str ''sam''" and c = "str ''Nanaimo''"
      and k = "str ''Canada''"]
  have rl: "rate_limited (now ?e) (client_ip ?rq) (ip_hits init_state)
              = (False, Map.empty(str ''203.0.113.7'' \<mapsto> [0]))"
    by (simp add: rate_limited_eq scenario_client_ip init_state_def hits_of_def
        scenario_env_def RATE_LIMIT_MAX_def)
  have res: "resolve_location ?e (str ''Nanaimo'') (str ''Canada'') = None"
    by (rule T [THEN conjunct2, THEN conjunct2, THEN conjunct2, THEN mp]) simp
  have hyp: "\<not> fst (rate_limited (now ?e) (client_ip ?rq) (ip_hits init_state)) \<and>
    get_sanitized (json_body ?rq) ''txid'' 64 = Inr scenario_txid \<and>
    get_sanitized (json_body ?rq) ''alias'' ALIAS_MAX = Inr (str ''sam'') \<and>
    get_sanitized (json_body ?rq) ''city'' CITY_MAX = Inr (str ''Nanaimo'') \<and>
    get_sanitized (json_body ?rq) ''country'' COUNTRY_MAX = Inr (str ''Canada'') \<and>
    (\<not> valid_txid scenario_txid \<or> str ''Nanaimo'' = [] \<or> str ''Canada'' = [] \<or>
     verify_payment scenario_cfg ?e scenario_txid = None \<or>
     resolve_location ?e (str ''Nanaimo'') (str ''Canada'') = None)"
    using rl res by (simp add: scenario_fields scenario_sanitized)
  have 1: "\<exists>msg. fst (api_submit scenario_cfg ?e ?rq init_state) = Inr (Response_Error msg 400)"
    by (rule T [THEN conjunct2, THEN conjunct2, THEN conjunct1, THEN mp, OF hyp])
  then have "fst (api_submit scenario_cfg ?e ?rq init_state) \<noteq> Inr Response_Ok"
    by auto
  then have "snd (api_submit scenario_cfg ?e ?rq init_state)
     = init_state\<lparr>ip_hits := snd (rate_limited (now ?e) (client_ip ?rq) (ip_hits init_state))\<rparr>"
    by (rule T [THEN conjunct1, THEN mp])
  then have 2: "snd (api_submit scenario_cfg ?e ?rq init_state)
     = init_state\<lparr>ip_hits := Map.empty(str ''203.0.113.7'' \<mapsto> [0])\<rparr>"
    by (simp only: rl snd_conv)
  show ?thesis
    by (intro conjI) (rule 1 2)+
qed

text \<open>
  Claim C2, as amended. For every submission that passes the rate check and whose four
  fields sanitize to strings, a sanitized txid that does not match \<open>[0-9a-fA-F]{64}\<close> is
  answered 400 with the TXID message. And for every submission whose sanitized txid does
  not match, with or without the rate check passed, the submission is not accepted and
  the table is as it was: no entry is created.
\<close>

theorem invalid_txid_rejected:
  "(\<not> fst (rate_limited (now e) (client_ip rq) (ip_hits st)) \<and>
    get_sanitized (json_body rq) ''txid'' 64 = Inr t \<and>
    get_sanitized (json_body rq) ''alias'' ALIAS_MAX = Inr a \<and>
    get_sanitized (json_body rq) ''city'' CITY_MAX = Inr c \<and>
    get_sanitized (json_body rq) ''country'' COUNTRY_MAX = Inr k \<and>
    \<not> valid_txid t \<longrightarrow>
      fst (api_submit cfg e rq st)
        = Inr (Response_Error ''TXID must be a 64-character hex string.'' 400)) \<and>
   (get_sanitized (json_body rq) ''txid'' 64 = Inr t \<and> \<not> valid_txid t \<longrightarrow>
      fst (api_submit cfg e rq st) \<noteq> Inr Response_Ok \<and>
      entries (snd (api_submit cfg e rq st)) = entries st)"
proof (intro conjI impI)
  assume a: "\<not> fst (rate_limited (now e) (client_ip rq) (ip_hits st)) \<and>
    get_sanitized (json_body rq) ''txid'' 64 = Inr t \<and>
    get_sanitized (json_body rq) ''alias'' ALIAS_MAX = Inr a \<and>
    get_sanitized (json_body rq) ''city'' CITY_MAX = Inr c \<and>
    get_sanitized (json_body rq) ''country'' COUNTRY_MAX = Inr k \<and>
    \<not> valid_txid t"
  then show "fst (api_submit cfg e rq st)
        = Inr (Response_Error ''TXID must be a 64-character hex string.'' 400)"
    using api_submit_gates [of e rq st t a c k cfg] by simp
next
  assume a: "get_sanitized (json_body rq) ''txid'' 64 = Inr t \<and> \<not> valid_txid t"
  show no: "fst (api_submit cfg e rq st) \<noteq> Inr Response_Ok"
  proof
    assume "fst (api_submit cfg e rq st) = Inr Response_Ok"
    then obtain t' where "get_sanitized (json_body rq) ''txid'' 64 = Inr t'" "valid_txid t'"
      by (rule api_submit_Ok_D)
    with a show False by simp
  qed
  show "entries (snd (api_submit cfg e rq st)) = entries st"
    using api_submit_rejected [OF no] by simp
qed

theorem invalid_txid_rejected_witness:
  "fst (api_submit scenario_cfg (scenario_env 0 Io_Ok)
          (scenario_request (str ''xyz'') (str ''Nanaimo'')) init_state)
     = Inr (Response_Error ''TXID must be a 64-character hex string.'' 400) \<and>
   entries (snd (api_submit scenario_cfg (scenario_env 0 Io_Ok)
          (scenario_request (str ''xyz'') (str ''Nanaimo'')) init_state)) = []"
proof -
  let ?e = "scenario_env 0 Io_Ok"
  let ?rq = "scenario_request (str ''xyz'') (str ''Nanaimo'')"
  note T = invalid_txid_rejected [where cfg = scenario_cfg and e = ?e and rq = ?rq
      and st = init_state and t = "str ''xyz''" and a = "str ''sam''" and c = "str ''Nanaimo''"
      and k = "str ''Canada''"]
  have san: "sanitize_str (str ''xyz'') 64 = str ''xyz''"
    using sanitize_str_nospace [of "str ''xyz''" 64] by (simp add: str_def isspace_def)
  have inv: "\<not> valid_txid (str ''xyz'')"
    by (simp add: valid_txid_def str_def)
  have rl: "\<not> fst (rate_limited (now ?e) (client_ip ?rq) (ip_hits init_state))"
    by (simp add: rate_limited_eq scenario_client_ip init_state_def hits_of_def
        RATE_LIMIT_MAX_def)
  have hyp1: "\<not> fst (rate_limited (now ?e) (client_ip ?rq) (ip_hits init_state)) \<and>
    get_sanitized (json_body ?rq) ''txid'' 64 = Inr (str ''xyz'') \<and>
    get_sanitized (json_body ?rq) ''alias'' ALIAS_MAX = Inr (str ''sam'') \<and>
    get_sanitized (json_body ?rq) ''city'' CITY_MAX = Inr (str ''Nanaimo'') \<and>
    get_sanitized (json_body ?rq) ''country'' COUNTRY_MAX = Inr (str ''Canada'') \<and>
    \<not> valid_txid (str ''xyz'')"
    using rl inv by (simp add: scenario_fields scenario_sanitized san)
  have hyp2: "get_sanitized (json_body ?rq) ''txid'' 64 = Inr (str ''xyz'') \<and>
    \<not> valid_txid (str ''xyz'')"
    using hyp1 by blast
  have 1: "fst (api_submit scenario_cfg ?e ?rq init_state)
     = Inr (Response_Error ''TXID must be a 64-character hex string.'' 400)"
    by (rule T [THEN conjunct1, THEN mp, OF hyp1])
  have "entries (snd (api_submit scenario_cfg ?e ?rq init_state)) = entries init_state"
    by (rule T [THEN conjunct2, THEN mp, OF hyp2, THEN conjunct2])
  then have 2: "entries (snd (api_submit scenario_cfg ?e ?rq init_state)) = []"
    by (simp add: init_state_def)
  show ?thesis
    by (intro conjI) (rule 1 2)+
qed

text \<open>
  The claim as stated fails: a submission with the txid \<open>xyz\<close> from an origin that has
  used its quota is answered 429, not 400.
\<close>

theorem invalid_txid_counterexample:
  "get_sanitized (json_body (scenario_request (str ''xyz'') (str ''Nanaimo''))) ''txid'' 64
     = Inr (str ''xyz'') \<and>
   \<not> valid_txid (str ''xyz'') \<and>
   fst (api_submit scenario_cfg (scenario_env 59 Io_Ok)
          (scenario_request (str ''xyz'') (str ''Nanaimo''))
          (init_state\<lparr>ip_hits := Map.empty(str ''203.0.113.7'' \<mapsto>
             [0, 1, 2, 3, 4, 5, 6, 7, 8, 9, 10, 11])\<rparr>))
     = Inr (Response_Error ''Too many requests. Try again later.'' 429) \<and>
   fst (api_submit scenario_cfg (scenario_env 59 Io_Ok)
          (scenario_request (str ''xyz'') (str ''Nanaimo''))
          (init_state\<lparr>ip_hits := Map.empty(str ''203.0.113.7'' \<mapsto>
             [0, 1, 2, 3, 4, 5, 6, 7, 8, 9, 10, 11])\<rparr>))
     \<noteq> Inr (Response_Error ''TXID must be a 64-character hex string.'' 400)"
proof -
  let ?e = "scenario_env 59 Io_Ok"
  let ?rq = "scenario_request (str ''xyz'') (str ''Nanaimo'')"
  let ?st = "init_state\<lparr>ip_hits := Map.empty(str ''203.0.113.7'' \<mapsto>
             [0, 1, 2, 3, 4, 5, 6, 7, 8, 9, 10, 11])\<rparr>"
  have san: "sanitize_str (str ''xyz'') 64 = str ''xyz''"
    using sanitize_str_nospace [of "str ''xyz''" 64] by (simp add: str_def isspace_def)
  have 1: "get_sanitized (json_body ?rq) ''txid'' 64 = Inr (str ''xyz'')"
    by (simp add: scenario_fields san)
  have 2: "\<not> valid_txid (str ''xyz'')"
    by (simp add: valid_txid_def str_def)
  have rl: "fst (rate_limited (now ?e) (client_ip ?rq) (ip_hits ?st))"
    by (simp add: rate_limited_eq scenario_client_ip hits_of_def scenario_env_def
        RATE_LIMIT_MAX_def RATE_LIMIT_WINDOW_S_def)
  have 3: "fst (api_submit scenario_cfg ?e ?rq ?st)
     = Inr (Response_Error ''Too many requests. Try again later.'' 429)"
    using rl by (simp only: api_submit_429 simp_thms)
  have 4: "fst (api_submit scenario_cfg ?e ?rq ?st)
     \<noteq> Inr (Response_Error ''TXID must be a 64-character hex string.'' 400)"
    by (simp only: 3) simp
  show ?thesis
    by (intro conjI) (rule 1 2 3 4)+
qed

text \<open>
  Claim C8. The response and the table after a submission do not depend on what the file
  system does with the export. The table changes only when the response is acceptance;
  and whenever the gates are passed and the \<open>INSERT\<close> succeeds, the response is
  acceptance and the table is the one the \<open>INSERT\<close> left (the old rows and the new one),
  also when the export fails with \<open>OSError\<close>.
\<close>

theorem export_failure_isolated:
  "fst (api_submit cfg (e\<lparr>export_io := fs\<rparr>) rq st) = fst (api_submit cfg e rq st) \<and>
   entries (snd (api_submit cfg (e\<lparr>export_io := fs\<rparr>) rq st))
     = entries (snd (api_submit cfg e rq st)) \<and>
   (entries (snd (api_submit cfg e rq st)) \<noteq> entries st \<longrightarrow>
      fst (api_submit cfg e rq st) = Inr Response_Ok) \<and>
   (\<not> fst (rate_limited (now e) (client_ip rq) (ip_hits st)) \<and>
    get_sanitized (json_body rq) ''txid'' 64 = Inr t \<and>
    get_sanitized (json_body rq) ''alias'' ALIAS_MAX = Inr a \<and>
    get_sanitized (json_body rq) ''city'' CITY_MAX = Inr c \<and>
    get_sanitized (json_body rq) ''country'' COUNTRY_MAX = Inr k \<and>
    valid_txid t \<and> c \<noteq> [] \<and> k \<noteq> [] \<and>
    verify_payment cfg e t = Some amt \<and>
    resolve_location e c k = Some (la, lo) \<and>
    insert_entry t a c k la lo amt (utc_now_iso e)
      (st\<lparr>ip_hits := snd (rate_limited (now e) (client_ip rq) (ip_hits st))\<rparr>) = Inr st2 \<longrightarrow>
      fst (api_submit cfg e rq st) = Inr Response_Ok \<and>
      entries (snd (api_submit cfg e rq st)) = entries st2 \<and>
      entries st2 = entries st @ [last (entries st2)] \<and>
      (export_io e \<noteq> Io_Ok \<longrightarrow>
         fst (export_log_json cfg (export_iso e) (export_io e) st2) = Some OSError))"
proof (intro conjI impI)
  show "fst (api_submit cfg (e\<lparr>export_io := fs\<rparr>) rq st) = fst (api_submit cfg e rq st)"
    and "entries (snd (api_submit cfg (e\<lparr>export_io := fs\<rparr>) rq st))
     = entries (snd (api_submit cfg e rq st))"
    by (simp_all add: api_submit_export_io)
next
  assume ne: "entries (snd (api_submit cfg e rq st)) \<noteq> entries st"
  show "fst (api_submit cfg e rq st) = Inr Response_Ok"
  proof (rule ccontr)
    assume "fst (api_submit cfg e rq st) \<noteq> Inr Response_Ok"
    then have "snd (api_submit cfg e rq st)
        = st\<lparr>ip_hits := snd (rate_limited (now e) (client_ip rq) (ip_hits st))\<rparr>"
      by (rule api_submit_rejected)
    then have "entries (snd (api_submit cfg e rq st)) = entries st"
      by simp
    with ne show False by simp
  qed
next
  assume a: "\<not> fst (rate_limited (now e) (client_ip rq) (ip_hits st)) \<and>
    get_sanitized (json_body rq) ''txid'' 64 = Inr t \<and>
    get_sanitized (json_body rq) ''alias'' ALIAS_MAX = Inr a \<and>
    get_sanitized (json_body rq) ''city'' CITY_MAX = Inr c \<and>
    get_sanitized (json_body rq) ''country'' COUNTRY_MAX = Inr k \<and>
    valid_txid t \<and> c \<noteq> [] \<and> k \<noteq> [] \<and>
    verify_payment cfg e t = Some amt \<and>
    resolve_location e c k = Some (la, lo) \<and>
    insert_entry t a c k la lo amt (utc_now_iso e)
      (st\<lparr>ip_hits := snd (rate_limited (now e) (client_ip rq) (ip_hits st))\<rparr>) = Inr st2"
  then obtain x y where xy: "la = Fin x" "lo = Fin y" "t \<notin> set (map txid (entries st))"
    and enc: "encodable a \<and> encodable c \<and> encodable k \<and> encodable (utc_now_iso e)"
    and st2: "entries st2 = entries st @
           [\<lparr>row_id = next_id st, txid = t, alias_text = Some a, city = c, country = k,
             lat = x, lng = y, amount_btc = amt, iso_date = utc_now_iso e\<rparr>]"
    by (auto simp: insert_entry_def next_id_ip_hits split: pyfloat.splits if_splits)
  have acc: "fst (api_submit cfg e rq st) = Inr Response_Ok \<and>
         entries (snd (api_submit cfg e rq st)) = entries st @
           [\<lparr>row_id = next_id st, txid = t, alias_text = Some a, city = c, country = k,
             lat = x, lng = y, amount_btc = amt, iso_date = utc_now_iso e\<rparr>]"
    using a xy enc by (intro api_submit_accept) simp_all
  show "fst (api_submit cfg e rq st) = Inr Response_Ok"
    using acc by simp
  show "entries (snd (api_submit cfg e rq st)) = entries st2"
    using acc st2 by simp
  show "entries st2 = entries st @ [last (entries st2)]"
    using st2 by simp
  assume "export_io e \<noteq> Io_Ok"
  then show "fst (export_log_json cfg (export_iso e) (export_io e) st2) = Some OSError"
    by (cases "export_io e") (simp_all add: export_log_json_def Let_def)
qed


theorem export_failure_isolated_witness:
  "fst (api_submit scenario_cfg (scenario_env 0 Io_Fail_Write)
          (scenario_request scenario_txid (str ''Nanaimo'')) init_state) = Inr Response_Ok \<and>
   entries (snd (api_submit scenario_cfg (scenario_env 0 Io_Fail_Write)
          (scenario_request scenario_txid (str ''Nanaimo'')) init_state))
     = [\<lparr>row_id = 1, txid = scenario_txid, alias_text = Some (str ''sam''),
         city = str ''Nanaimo'', country = str ''Canada'', lat = 49.1659, lng = - 123.9401,
         amount_btc = 0.0015, iso_date = str ''2024-01-01T00:00:00Z''\<rparr>] \<and>
   fst (export_log_json scenario_cfg (str ''2024-01-01T00:00:00Z'') Io_Fail_Write
          (init_state\<lparr>ip_hits := Map.empty(str ''203.0.113.7'' \<mapsto> [0]),
             entries := [\<lparr>row_id = 1, txid = scenario_txid, alias_text = Some (str ''sam''),
               city = str ''Nanaimo'', country = str ''Canada'', lat = 49.1659,
               lng = - 123.9401, amount_btc = 0.0015,
               iso_date = str ''2024-01-01T00:00:00Z''\<rparr>],
             sqlite_sequence := 1\<rparr>)) = Some OSError"
proof -
  let ?e = "scenario_env 0 Io_Fail_Write"
  let ?rq = "scenario_request scenario_txid (str ''Nanaimo'')"
  let ?row = "\<lparr>row_id = 1, txid = scenario_txid, alias_text = Some (str ''sam''),
         city = str ''Nanaimo'', country = str ''Canada'', lat = 49.1659, lng = - 123.9401,
         amount_btc = 0.0015, iso_date = str ''2024-01-01T00:00:00Z''\<rparr>"
  let ?st2 = "init_state\<lparr>ip_hits := Map.empty(str ''203.0.113.7'' \<mapsto> [0]),
             entries := [?row], sqlite_sequence := 1\<rparr>"
  note T = export_failure_isolated [where cfg = scenario_cfg and e = ?e and rq = ?rq
      and st = init_state and t = scenario_txid and a = "str ''sam''" and c = "str ''Nanaimo''"
      and k = "str ''Canada''" and amt = "0.0015" and la = "Fin 49.1659"
      and lo = "Fin (- 123.9401)" and ?st2.0 = ?st2, THEN conjunct2, THEN conjunct2, THEN conjunct2]
  have rl: "rate_limited (now ?e) (client_ip ?rq) (ip_hits init_state)
              = (False, Map.empty(str ''203.0.113.7'' \<mapsto> [0]))"
    by (simp add: rate_limited_eq scenario_client_ip init_state_def hits_of_def
        scenario_env_def RATE_LIMIT_MAX_def)
  have ne: "str ''Nanaimo'' \<noteq> []" "str ''Canada'' \<noteq> []"
    by (simp_all add: str_def)
  have ins: "insert_entry scenario_txid (str ''sam'') (str ''Nanaimo'') (str ''Canada'')
      (Fin 49.1659) (Fin (- 123.9401)) 0.0015 (utc_now_iso ?e)
      (init_state\<lparr>ip_hits := snd (rate_limited (now ?e) (client_ip ?rq) (ip_hits init_state))\<rparr>)
      = Inr ?st2"
    by (simp only: rl snd_conv)
       (simp add: insert_entry_def init_state_def next_id_def scenario_env_def
          str_encodable valid_txid_encodable scenario_valid_txid)
  have hyp: "\<not> fst (rate_limited (now ?e) (client_ip ?rq) (ip_hits init_state)) \<and>
    get_sanitized (json_body ?rq) ''txid'' 64 = Inr scenario_txid \<and>
    get_sanitized (json_body ?rq) ''alias'' ALIAS_MAX = Inr (str ''sam'') \<and>
    get_sanitized (json_body ?rq) ''city'' CITY_MAX = Inr (str ''Nanaimo'') \<and>
    get_sanitized (json_body ?rq) ''country'' COUNTRY_MAX = Inr (str ''Canada'') \<and>
    valid_txid scenario_txid \<and> str ''Nanaimo'' \<noteq> [] \<and> str ''Canada'' \<noteq> [] \<and>
    verify_payment scenario_cfg ?e scenario_txid = Some 0.0015 \<and>
    resolve_location ?e (str ''Nanaimo'') (str ''Canada'')
      = Some (Fin 49.1659, Fin (- 123.9401)) \<and>
    insert_entry scenario_txid (str ''sam'') (str ''Nanaimo'') (str ''Canada'')
      (Fin 49.1659) (Fin (- 123.9401)) 0.0015 (utc_now_iso ?e)
      (init_state\<lparr>ip_hits := snd (rate_limited (now ?e) (client_ip ?rq) (ip_hits init_state))\<rparr>)
      = Inr ?st2"
    by (intro conjI ins ne scenario_valid_txid scenario_verify scenario_resolve)
       (simp_all add: rl scenario_fields scenario_sanitized)
  note C = T [THEN mp, OF hyp]
  have 1: "fst (api_submit scenario_cfg ?e ?rq init_state) = Inr Response_Ok"
    by (rule C [THEN conjunct1])
  have "entries (snd (api_submit scenario_cfg ?e ?rq init_state)) = entries ?st2"
    by (rule C [THEN conjunct2, THEN conjunct1])
  then have 2: "entries (snd (api_submit scenario_cfg ?e ?rq init_state)) = [?row]"
    by simp
  have io: "export_io ?e \<noteq> Io_Ok" "export_iso ?e = str ''2024-01-01T00:00:00Z''"
    "export_io ?e = Io_Fail_Write"
    by (simp_all add: scenario_env_def)
  have 3: "fst (export_log_json scenario_cfg (str ''2024-01-01T00:00:00Z'') Io_Fail_Write ?st2)
             = Some OSError"
    using C [THEN conjunct2, THEN conjunct2, THEN conjunct2, THEN mp, OF io(1)]
    by (simp only: io)
  show ?thesis
    by (intro conjI) (rule 1 2 3)+
qed

section \<open>The exporter\<close>

lemma fold_max_ge: "(a::nat) \<le> fold max xs a \<and> (\<forall>x\<in>set xs. x \<le> fold max xs a)"
proof (induction xs arbitrary: a)
  case Nil
  show ?case by simp
next
  case (Cons y ys)
  from Cons [of "max y a"] show ?case by auto
qed

lemma next_id_gt: "r \<in> set (entries st) \<Longrightarrow> row_id r < next_id st"
  using fold_max_ge [of "sqlite_sequence st" "map row_id (entries st)"]
  by (auto simp: next_id_def less_Suc_eq_le)

lemma ids_ascending_append:
  "ids_ascending st \<Longrightarrow>
   ids_ascending (st\<lparr>ip_hits := h, entries := entries st @ [r\<lparr>row_id := next_id st\<rparr>],
                     sqlite_sequence := n\<rparr>)"
  by (auto simp: ids_ascending_def sorted_wrt_append next_id_gt)

lemma select_all_ascending: "ids_ascending st \<Longrightarrow> select_all st = entries st"
  unfolding select_all_def ids_ascending_def
  by (intro sort_key_id_if_sorted) (simp add: strict_sorted_imp_sorted)

lemma export_log_json_ids: "ids_ascending (snd (export_log_json cfg d fs st)) = ids_ascending st"
  by (simp add: ids_ascending_def export_log_json_frame)

lemma api_submit_ids_ascending:
  assumes "ids_ascending st"
  shows "ids_ascending (snd (api_submit cfg e rq st))"
proof (cases "fst (api_submit cfg e rq st) = Inr Response_Ok")
  case True
  then show ?thesis
  proof (rule api_submit_Ok_D)
    fix t a c k x y amt
    assume "snd (api_submit cfg e rq st) = snd (export_log_json cfg (export_iso e) (export_io e)
                  (st\<lparr>ip_hits := snd (rate_limited (now e) (client_ip rq) (ip_hits st)),
                      entries := entries st @
                        [\<lparr>row_id = next_id st, txid = t, alias_text = Some a, city = c,
                          country = k, lat = x, lng = y, amount_btc = amt,
                          iso_date = utc_now_iso e\<rparr>],
                      sqlite_sequence := next_id st\<rparr>))"
    then show ?thesis
      using assms
      by (auto simp: export_log_json_frame ids_ascending_def sorted_wrt_append next_id_gt)
  qed
next
  case False
  then show ?thesis
    using api_submit_rejected [OF False] assms by (simp add: ids_ascending_def)
qed

lemma run_submits_ids_ascending:
  "ids_ascending st \<Longrightarrow> ids_ascending (snd (run_submits cfg xs st))"
proof (induction xs arbitrary: st)
  case Nil
  then show ?case by simp
next
  case (Cons x xs)
  have "ids_ascending (snd (api_submit cfg (fst x) (snd x) st))"
    using Cons.prems by (rule api_submit_ids_ascending)
  then have "ids_ascending (snd (run_submits cfg xs (snd (api_submit cfg (fst x) (snd x) st))))"
    by (rule Cons.IH)
  then show ?case by (simp add: split_def Let_def)
qed

lemma init_state_ids: "ids_ascending init_state"
  by (simp add: ids_ascending_def init_state_def)

text \<open>
  Claim C6. A run of \<open>export_log_json\<close> whose write succeeds leaves in \<open>log.json\<close> one
  document: the project metadata (\<open>origin_label\<close>, \<open>btc_address\<close>, \<open>exported_iso\<close>)
  and, under \<open>entries\<close>, one object per row of the table, in the order of insertion,
  with the fields \<open>txid\<close>, \<open>alias\<close>, \<open>city\<close>, \<open>country\<close>, \<open>lat\<close>, \<open>lng\<close>,
  \<open>amount_btc\<close>, \<open>iso_date\<close>; the list is as long as the table. The order of insertion
  is the order of the ids, which ascend in the empty table, after every submission and so
  in every state the service reaches.
\<close>

theorem export_document:
  "(ids_ascending st \<longrightarrow>
      export_log_json cfg d Io_Ok st =
        (None, st\<lparr>log_json := Written (JObject
           [(''project'', JObject [(''origin_label'', JString (ORIGIN_LABEL cfg)),
                                  (''btc_address'', JString (BTC_ADDRESS cfg)),
                                  (''exported_iso'', JString d)]),
            (''entries'', JArray (map entry_json (entries st)))])\<rparr>)) \<and>
   entry_json r =
     JObject [(''txid'', JString (txid r)),
              (''alias'', JString (case alias_text r of None \<Rightarrow> [] | Some a \<Rightarrow> a)),
              (''city'', JString (city r)),
              (''country'', JString (country r)),
              (''lat'', JNumber (lat r)),
              (''lng'', JNumber (lng r)),
              (''amount_btc'', JNumber (amount_btc r)),
              (''iso_date'', JString (iso_date r))] \<and>
   length (map entry_json (entries st)) = length (entries st) \<and>
   ids_ascending init_state \<and>
   (ids_ascending st \<longrightarrow> ids_ascending (snd (api_submit cfg e rq st))) \<and>
   ids_ascending (snd (run_submits cfg xs init_state))"
  by (simp add: export_log_json_def select_all_ascending export_doc_def entry_json_def
      init_state_ids api_submit_ids_ascending run_submits_ids_ascending)


theorem export_document_witness:
  "export_log_json scenario_cfg (str ''2024-01-02T00:00:00Z'') Io_Ok
     (init_state\<lparr>entries :=
        [\<lparr>row_id = 1, txid = scenario_txid, alias_text = Some (str ''sam''),
          city = str ''Nanaimo'', country = str ''Canada'', lat = 49.1659, lng = - 123.9401,
          amount_btc = 0.0015, iso_date = str ''2024-01-01T00:00:00Z''\<rparr>,
         \<lparr>row_id = 2, txid = replicate 64 98, alias_text = None,
          city = str ''Victoria'', country = str ''Canada'', lat = 48.4284, lng = - 123.3656,
          amount_btc = 0.002, iso_date = str ''2024-01-01T00:00:05Z''\<rparr>]\<rparr>)
   = (None, init_state\<lparr>entries :=
        [\<lparr>row_id = 1, txid = scenario_txid, alias_text = Some (str ''sam''),
          city = str ''Nanaimo'', country = str ''Canada'', lat = 49.1659, lng = - 123.9401,
          amount_btc = 0.0015, iso_date = str ''2024-01-01T00:00:00Z''\<rparr>,
         \<lparr>row_id = 2, txid = replicate 64 98, alias_text = None,
          city = str ''Victoria'', country = str ''Canada'', lat = 48.4284, lng = - 123.3656,
          amount_btc = 0.002, iso_date = str ''2024-01-01T00:00:05Z''\<rparr>],
       log_json := Written (JObject
         [(''project'', JObject
            [(''origin_label'', JString (str ''Vancouver Island, BC, Canada'')),
             (''btc_address'', JString (str ''bc1qexampleaddressxxxxxxxxxxxxxxxxxxxxxx'')),
             (''exported_iso'', JString (str ''2024-01-02T00:00:00Z''))]),
          (''entries'', JArray
            [JObject [(''txid'', JString scenario_txid),
                      (''alias'', JString (str ''sam'')),
                      (''city'', JString (str ''Nanaimo'')),
                      (''country'', JString (str ''Canada'')),
                      (''lat'', JNumber 49.1659),
                      (''lng'', JNumber (- 123.9401)),
                      (''amount_btc'', JNumber 0.0015),
                      (''iso_date'', JString (str ''2024-01-01T00:00:00Z''))],
             JObject [(''txid'', JString (replicate 64 98)),
                      (''alias'', JString []),
                      (''city'', JString (str ''Victoria'')),
                      (''country'', JString (str ''Canada'')),
                      (''lat'', JNumber 48.4284),
                      (''lng'', JNumber (- 123.3656)),
                      (''amount_btc'', JNumber 0.002),
                      (''iso_date'', JString (str ''2024-01-01T00:00:05Z''))]])])\<rparr>) \<and>
   ids_ascending (snd (api_submit scenario_cfg (scenario_env 0 Io_Ok)
      (scenario_request scenario_txid (str ''Nanaimo'')) init_state))"
proof -
  let ?r1 = "\<lparr>row_id = 1, txid = scenario_txid, alias_text = Some (str ''sam''),
          city = str ''Nanaimo'', country = str ''Canada'', lat = 49.1659, lng = - 123.9401,
          amount_btc = 0.0015, iso_date = str ''2024-01-01T00:00:00Z''\<rparr>"
  let ?r2 = "\<lparr>row_id = 2, txid = replicate 64 98, alias_text = None,
          city = str ''Victoria'', country = str ''Canada'', lat = 48.4284, lng = - 123.3656,
          amount_btc = 0.002, iso_date = str ''2024-01-01T00:00:05Z''\<rparr>"
  let ?st = "init_state\<lparr>entries := [?r1, ?r2]\<rparr>"
  have asc: "ids_ascending ?st"
    by (simp add: ids_ascending_def)
  note T = export_document [where st = ?st and cfg = scenario_cfg
      and d = "str ''2024-01-02T00:00:00Z''", THEN conjunct1, THEN mp, OF asc]
  note E1 = export_document [where r = ?r1, THEN conjunct2, THEN conjunct1]
  note E2 = export_document [where r = ?r2, THEN conjunct2, THEN conjunct1]
  have 1: "export_log_json scenario_cfg (str ''2024-01-02T00:00:00Z'') Io_Ok ?st
    = (None, ?st\<lparr>log_json := Written (JObject
         [(''project'', JObject
            [(''origin_label'', JString (ORIGIN_LABEL scenario_cfg)),
             (''btc_address'', JString (BTC_ADDRESS scenario_cfg)),
             (''exported_iso'', JString (str ''2024-01-02T00:00:00Z''))]),
          (''entries'', JArray [entry_json ?r1, entry_json ?r2])])\<rparr>)"
    using T by simp
  have 2: "ids_ascending (snd (api_submit scenario_cfg (scenario_env 0 Io_Ok)
      (scenario_request scenario_txid (str ''Nanaimo'')) init_state))"
    by (rule export_document [where st = init_state, THEN conjunct2, THEN conjunct2,
          THEN conjunct2, THEN conjunct2, THEN conjunct1, THEN mp])
       (simp add: ids_ascending_def init_state_def)
  show ?thesis
    apply (intro conjI 2)
    apply (simp only: 1 E1 E2)
    apply (simp add: scenario_cfg_def)
    done
qed

subsection \<open>Exporting twice\<close>

lemma drop_exported_iso_export_doc:
  "drop_exported_iso (export_doc cfg d rows) =
     JObject [(''project'', JObject [(''origin_label'', JString (ORIGIN_LABEL cfg)),
                                    (''btc_address'', JString (BTC_ADDRESS cfg))]),
              (''entries'', JArray (map entry_json rows))]"
  by (simp add: export_doc_def)

lemma export_log_json_Io_Ok:
  "export_log_json cfg d Io_Ok st
     = (None, st\<lparr>log_json := Written (export_doc cfg d (select_all st))\<rparr>)"
  by (simp add: export_log_json_def)

lemma select_all_log_json: "select_all (st\<lparr>log_json := f\<rparr>) = select_all st"
  by (simp add: select_all_def)

lemma select_all_export:
  "select_all (snd (export_log_json cfg d fs st)) = select_all st"
  by (simp add: select_all_def export_log_json_frame)

text \<open>
  Claim C7. Two exports in succession, with nothing written to the table in between, both
  succeed and leave two documents that agree once the key \<open>exported_iso\<close> is taken out:
  both then hold the same metadata and the same entries. The table is as it was.
\<close>

theorem export_idempotent:
  "fst (export_log_json cfg d1 Io_Ok st) = None \<and>
   fst (export_log_json cfg d2 Io_Ok (snd (export_log_json cfg d1 Io_Ok st))) = None \<and>
   (\<exists>doc1 doc2.
      log_json (snd (export_log_json cfg d1 Io_Ok st)) = Written doc1 \<and>
      log_json (snd (export_log_json cfg d2 Io_Ok (snd (export_log_json cfg d1 Io_Ok st))))
        = Written doc2 \<and>
      drop_exported_iso doc1 = drop_exported_iso doc2 \<and>
      drop_exported_iso doc1 =
        JObject [(''project'', JObject [(''origin_label'', JString (ORIGIN_LABEL cfg)),
                                       (''btc_address'', JString (BTC_ADDRESS cfg))]),
                 (''entries'', JArray (map entry_json (select_all st)))] \<and>
      doc1 = export_doc cfg d1 (select_all st) \<and>
      doc2 = export_doc cfg d2 (select_all st)) \<and>
   entries (snd (export_log_json cfg d2 Io_Ok (snd (export_log_json cfg d1 Io_Ok st))))
     = entries st"
  by (simp add: export_log_json_Io_Ok select_all_log_json drop_exported_iso_export_doc)

theorem export_idempotent_witness:
  "log_json (snd (export_log_json scenario_cfg (str ''2024-01-02T00:00:00Z'') Io_Ok init_state))
     \<noteq> log_json (snd (export_log_json scenario_cfg (str ''2024-01-02T00:00:07Z'') Io_Ok
           (snd (export_log_json scenario_cfg (str ''2024-01-02T00:00:00Z'') Io_Ok
              init_state)))) \<and>
   (\<exists>doc1 doc2.
      log_json (snd (export_log_json scenario_cfg (str ''2024-01-02T00:00:00Z'') Io_Ok
         init_state)) = Written doc1 \<and>
      log_json (snd (export_log_json scenario_cfg (str ''2024-01-02T00:00:07Z'') Io_Ok
           (snd (export_log_json scenario_cfg (str ''2024-01-02T00:00:00Z'') Io_Ok
              init_state)))) = Written doc2 \<and>
      drop_exported_iso doc1 = drop_exported_iso doc2)"
proof -
  have 1: "log_json (snd (export_log_json scenario_cfg (str ''2024-01-02T00:00:00Z'') Io_Ok
             init_state))
     \<noteq> log_json (snd (export_log_json scenario_cfg (str ''2024-01-02T00:00:07Z'') Io_Ok
           (snd (export_log_json scenario_cfg (str ''2024-01-02T00:00:00Z'') Io_Ok
              init_state))))"
    by (simp add: export_log_json_def export_doc_def str_def)
  have 2: "\<exists>doc1 doc2.
      log_json (snd (export_log_json scenario_cfg (str ''2024-01-02T00:00:00Z'') Io_Ok
         init_state)) = Written doc1 \<and>
      log_json (snd (export_log_json scenario_cfg (str ''2024-01-02T00:00:07Z'') Io_Ok
           (snd (export_log_json scenario_cfg (str ''2024-01-02T00:00:00Z'') Io_Ok
              init_state)))) = Written doc2 \<and>
      drop_exported_iso doc1 = drop_exported_iso doc2"
    using export_idempotent [where cfg = scenario_cfg and st = init_state
        and ?d1.0 = "str ''2024-01-02T00:00:00Z''" and ?d2.0 = "str ''2024-01-02T00:00:07Z''"]
    by blast
  show ?thesis
    by (intro conjI) (rule 1 2)+
qed

section \<open>Exactly once per transaction id\<close>

lemma api_submit_entries:
  "entries (snd (api_submit cfg e rq st)) = entries st \<or>
   (\<exists>r. entries (snd (api_submit cfg e rq st)) = entries st @ [r] \<and>
        txid r \<notin> set (map txid (entries st)) \<and>
        get_sanitized (json_body rq) ''txid'' 64 = Inr (txid r) \<and>
        fst (api_submit cfg e rq st) = Inr Response_Ok)"
proof (cases "fst (api_submit cfg e rq st) = Inr Response_Ok")
  case True
  then show ?thesis
    by (rule api_submit_Ok_D) (simp add: export_log_json_frame True)
next
  case False
  then show ?thesis
    using api_submit_rejected [OF False] by simp
qed

lemma api_submit_distinct:
  "distinct (map txid (entries st)) \<Longrightarrow>
   distinct (map txid (entries (snd (api_submit cfg e rq st))))"
  using api_submit_entries [of cfg e rq st] by auto

lemma run_submits_distinct:
  "distinct (map txid (entries st)) \<Longrightarrow>
   distinct (map txid (entries (snd (run_submits cfg xs st))))"
proof (induction xs arbitrary: st)
  case Nil
  then show ?case by simp
next
  case (Cons x xs)
  have "distinct (map txid (entries (snd (api_submit cfg (fst x) (snd x) st))))"
    using Cons.prems by (rule api_submit_distinct)
  then have "distinct (map txid (entries
      (snd (run_submits cfg xs (snd (api_submit cfg (fst x) (snd x) st))))))"
    by (rule Cons.IH)
  then show ?case by (simp add: split_def Let_def)
qed

lemma run_submits_append_only:
  "\<exists>ys. entries (snd (run_submits cfg xs st)) = entries st @ ys"
proof (induction xs arbitrary: st)
  case Nil
  show ?case by simp
next
  case (Cons x xs)
  obtain ys where ys: "entries (snd (run_submits cfg xs (snd (api_submit cfg (fst x) (snd x) st))))
      = entries (snd (api_submit cfg (fst x) (snd x) st)) @ ys"
    using Cons.IH by blast
  obtain zs where "entries (snd (api_submit cfg (fst x) (snd x) st)) = entries st @ zs"
    using api_submit_entries [of cfg "fst x" "snd x" st] by auto
  with ys show ?case by (simp add: split_def Let_def)
qed

lemma duplicate_not_accepted:
  assumes "get_sanitized (json_body rq) ''txid'' 64 = Inr t"
    and "t \<in> set (map txid (entries st))"
  shows "fst (api_submit cfg e rq st) \<noteq> Inr Response_Ok"
proof
  assume "fst (api_submit cfg e rq st) = Inr Response_Ok"
  then obtain t' where "get_sanitized (json_body rq) ''txid'' 64 = Inr t'"
    "t' \<notin> set (map txid (entries st))"
    by (rule api_submit_Ok_D)
  with assms show False by simp
qed


lemma distinct_count_one:
  "distinct (map f xs) \<Longrightarrow> t \<in> set (map f xs) \<Longrightarrow> length (filter (\<lambda>r. f r = t) xs) = 1"
proof (induction xs)
  case Nil
  then show ?case by simp
next
  case (Cons x xs)
  show ?case
  proof (cases "f x = t")
    case True
    with Cons.prems have "\<forall>r\<in>set xs. f r \<noteq> t" by (auto simp: image_iff)
    then have "filter (\<lambda>r. f r = t) xs = []" by (simp add: filter_empty_conv)
    with True show ?thesis by simp
  next
    case False
    with Cons show ?thesis by auto
  qed
qed

lemma quota_first_accepted:
  "fst (api_submit scenario_cfg (scenario_env 20 Io_Ok)
          (scenario_request scenario_txid (str ''Nanaimo''))
          (init_state\<lparr>ip_hits := Map.empty(str ''203.0.113.7'' \<mapsto>
             [0, 1, 2, 3, 4, 5, 6, 7, 8, 9, 10])\<rparr>)) = Inr Response_Ok"
proof -
  let ?rq = "scenario_request scenario_txid (str ''Nanaimo'')"
  let ?e = "scenario_env 20 Io_Ok"
  let ?st = "init_state\<lparr>ip_hits := Map.empty(str ''203.0.113.7'' \<mapsto>
             [0, 1, 2, 3, 4, 5, 6, 7, 8, 9, 10])\<rparr>"
  have nl: "\<not> fst (rate_limited (now ?e) (client_ip ?rq) (ip_hits ?st))"
    by (simp add: rate_limited_eq scenario_client_ip hits_of_def RATE_LIMIT_MAX_def)
  have ne: "str ''Nanaimo'' \<noteq> []" "str ''Canada'' \<noteq> []"
    by (simp_all add: str_def)
  have fr: "scenario_txid \<notin> set (map txid (entries ?st))"
    by (simp add: init_state_def)
  have enc: "encodable (str ''sam'') \<and> encodable (str ''Nanaimo'') \<and>
      encodable (str ''Canada'') \<and> encodable (utc_now_iso ?e)"
    by (simp add: str_encodable scenario_env_def)
  show ?thesis
    using api_submit_accept [OF nl scenario_fields(1) scenario_fields(2) scenario_fields(3)
        scenario_fields(4), unfolded scenario_sanitized, OF scenario_valid_txid ne
        scenario_verify scenario_resolve fr enc]
    by (rule conjunct1)
qed

lemma quota_second_limited:
  "fst (rate_limited (now (scenario_env 21 Io_Ok))
     (client_ip (scenario_request scenario_txid (str ''Nanaimo'')))
     (ip_hits (snd (run_submits scenario_cfg []
        (snd (api_submit scenario_cfg (scenario_env 20 Io_Ok)
           (scenario_request scenario_txid (str ''Nanaimo''))
           (init_state\<lparr>ip_hits := Map.empty(str ''203.0.113.7'' \<mapsto>
              [0, 1, 2, 3, 4, 5, 6, 7, 8, 9, 10])\<rparr>)))))))"
proof -
  let ?rq = "scenario_request scenario_txid (str ''Nanaimo'')"
  let ?st = "init_state\<lparr>ip_hits := Map.empty(str ''203.0.113.7'' \<mapsto>
             [0, 1, 2, 3, 4, 5, 6, 7, 8, 9, 10])\<rparr>"
  let ?S1 = "snd (api_submit scenario_cfg (scenario_env 20 Io_Ok) ?rq ?st)"
  have hits: "ip_hits (snd (run_submits scenario_cfg [] ?S1))
      = Map.empty(str ''203.0.113.7'' \<mapsto> [0, 1, 2, 3, 4, 5, 6, 7, 8, 9, 10, 20])"
    by (simp add: api_submit_ip_hits rate_limited_eq scenario_client_ip
        hits_of_def scenario_env_def RATE_LIMIT_WINDOW_S_def)
  show ?thesis
    by (simp only: hits) (simp add: rate_limited_eq scenario_client_ip hits_of_def
        RATE_LIMIT_MAX_def RATE_LIMIT_WINDOW_S_def scenario_env_def)
qed

text \<open>
  Claim C1, as amended. The transaction ids of the table stay pairwise distinct under every
  submission, and the table only grows at its end, so a stored entry is never overwritten.
  For every pair of submissions with the same sanitized txid of which the first is
  accepted, and whatever submissions are handled in between: exactly one entry with that
  txid is stored, and the second submission is not accepted and leaves the table as it
  was. The second submission is answered 429 when it is over quota. When it passes the
  rate check and its alias, city and country sanitize to strings, it is answered 400 if
  the city or the country is empty or the payment verification or the location resolution
  fails; and if it passes all of these and the strings of its row can be encoded as UTF-8,
  it is answered with the Duplicate condition (HTTP 409).
\<close>

theorem exactly_once_per_txid:
  "(distinct (map txid (entries st)) \<longrightarrow>
      distinct (map txid (entries (snd (api_submit cfg e rq st))))) \<and>
   distinct (map txid (entries (snd (run_submits cfg xs init_state)))) \<and>
   (\<exists>ys. entries (snd (run_submits cfg xs st)) = entries st @ ys) \<and>
   (distinct (map txid (entries st)) \<and>
    fst (api_submit cfg e rq st) = Inr Response_Ok \<and>
    get_sanitized (json_body rq) ''txid'' 64 = Inr t \<and>
    get_sanitized (json_body rq') ''txid'' 64 = Inr t \<longrightarrow>
      length (filter (\<lambda>r. txid r = t)
        (entries (snd (run_submits cfg xs (snd (api_submit cfg e rq st)))))) = 1 \<and>
      fst (api_submit cfg e' rq' (snd (run_submits cfg xs (snd (api_submit cfg e rq st)))))
        \<noteq> Inr Response_Ok \<and>
      entries (snd (api_submit cfg e' rq'
                 (snd (run_submits cfg xs (snd (api_submit cfg e rq st))))))
        = entries (snd (run_submits cfg xs (snd (api_submit cfg e rq st)))) \<and>
      (fst (rate_limited (now e') (client_ip rq')
              (ip_hits (snd (run_submits cfg xs (snd (api_submit cfg e rq st)))))) \<longrightarrow>
         fst (api_submit cfg e' rq' (snd (run_submits cfg xs (snd (api_submit cfg e rq st)))))
           = Inr (Response_Error ''Too many requests. Try again later.'' 429)) \<and>
      (\<not> fst (rate_limited (now e') (client_ip rq')
              (ip_hits (snd (run_submits cfg xs (snd (api_submit cfg e rq st)))))) \<and>
       get_sanitized (json_body rq') ''alias'' ALIAS_MAX = Inr a \<and>
       get_sanitized (json_body rq') ''city'' CITY_MAX = Inr c \<and>
       get_sanitized (json_body rq') ''country'' COUNTRY_MAX = Inr k \<and>
       (c = [] \<or> k = [] \<or> verify_payment cfg e' t = None \<or>
        resolve_location e' c k = None) \<longrightarrow>
         (\<exists>msg. fst (api_submit cfg e' rq'
                   (snd (run_submits cfg xs (snd (api_submit cfg e rq st)))))
                 = Inr (Response_Error msg 400))) \<and>
      (\<not> fst (rate_limited (now e') (client_ip rq')
              (ip_hits (snd (run_submits cfg xs (snd (api_submit cfg e rq st)))))) \<and>
       get_sanitized (json_body rq') ''alias'' ALIAS_MAX = Inr a \<and>
       get_sanitized (json_body rq') ''city'' CITY_MAX = Inr c \<and>
       get_sanitized (json_body rq') ''country'' COUNTRY_MAX = Inr k \<and>
       c \<noteq> [] \<and> k \<noteq> [] \<and>
       verify_payment cfg e' t = Some amt \<and>
       resolve_location e' c k = Some (la, lo) \<and>
       encodable a \<and> encodable c \<and> encodable k \<and> encodable (utc_now_iso e') \<longrightarrow>
         fst (api_submit cfg e' rq' (snd (run_submits cfg xs (snd (api_submit cfg e rq st)))))
           = Inr (Response_Error ''That TXID is already in the log.'' 409)))"
proof (intro conjI impI)
  assume "distinct (map txid (entries st))"
  then show "distinct (map txid (entries (snd (api_submit cfg e rq st))))"
    by (rule api_submit_distinct)
next
  show "distinct (map txid (entries (snd (run_submits cfg xs init_state))))"
    by (rule run_submits_distinct) (simp add: init_state_def)
next
  show "\<exists>ys. entries (snd (run_submits cfg xs st)) = entries st @ ys"
    by (rule run_submits_append_only)
next
  let ?S1 = "snd (api_submit cfg e rq st)"
  let ?S2 = "snd (run_submits cfg xs ?S1)"
  assume a: "distinct (map txid (entries st)) \<and>
    fst (api_submit cfg e rq st) = Inr Response_Ok \<and>
    get_sanitized (json_body rq) ''txid'' 64 = Inr t \<and>
    get_sanitized (json_body rq') ''txid'' 64 = Inr t"
  have ok: "fst (api_submit cfg e rq st) = Inr Response_Ok"
    using a by simp
  obtain t' where t': "get_sanitized (json_body rq) ''txid'' 64 = Inr t'" "valid_txid t'"
    "t' \<in> set (map txid (entries ?S1))"
    by (rule api_submit_Ok_D [OF ok]) (simp add: export_log_json_frame)
  have in1: "t \<in> set (map txid (entries ?S1))" and val: "valid_txid t"
    using t' a by simp_all
  obtain ys where "entries ?S2 = entries ?S1 @ ys"
    using run_submits_append_only by blast
  with in1 have in2: "t \<in> set (map txid (entries ?S2))"
    by simp
  have d2: "distinct (map txid (entries ?S2))"
    using a by (intro run_submits_distinct api_submit_distinct) simp
  show "length (filter (\<lambda>r. txid r = t) (entries ?S2)) = 1"
    using d2 in2 by (rule distinct_count_one)
  show no: "fst (api_submit cfg e' rq' ?S2) \<noteq> Inr Response_Ok"
    using a in2 by (intro duplicate_not_accepted [where t = t]) simp_all
  show "entries (snd (api_submit cfg e' rq' ?S2)) = entries ?S2"
    using api_submit_rejected [OF no] by simp
  {
    assume "fst (rate_limited (now e') (client_ip rq') (ip_hits ?S2))"
    then show "fst (api_submit cfg e' rq' ?S2)
           = Inr (Response_Error ''Too many requests. Try again later.'' 429)"
      by (simp add: api_submit_429)
  }
  {
    assume g: "\<not> fst (rate_limited (now e') (client_ip rq') (ip_hits ?S2)) \<and>
       get_sanitized (json_body rq') ''alias'' ALIAS_MAX = Inr a \<and>
       get_sanitized (json_body rq') ''city'' CITY_MAX = Inr c \<and>
       get_sanitized (json_body rq') ''country'' COUNTRY_MAX = Inr k \<and>
       (c = [] \<or> k = [] \<or> verify_payment cfg e' t = None \<or>
        resolve_location e' c k = None)"
    show "\<exists>msg. fst (api_submit cfg e' rq' ?S2) = Inr (Response_Error msg 400)"
      using api_submit_gates [of e' rq' ?S2 t a c k cfg] a g val
      by (auto split: option.splits)
  }
  {
    assume g: "\<not> fst (rate_limited (now e') (client_ip rq') (ip_hits ?S2)) \<and>
       get_sanitized (json_body rq') ''alias'' ALIAS_MAX = Inr a \<and>
       get_sanitized (json_body rq') ''city'' CITY_MAX = Inr c \<and>
       get_sanitized (json_body rq') ''country'' COUNTRY_MAX = Inr k \<and>
       c \<noteq> [] \<and> k \<noteq> [] \<and>
       verify_payment cfg e' t = Some amt \<and>
       resolve_location e' c k = Some (la, lo) \<and>
       encodable a \<and> encodable c \<and> encodable k \<and> encodable (utc_now_iso e')"
    show "fst (api_submit cfg e' rq' ?S2)
           = Inr (Response_Error ''That TXID is already in the log.'' 409)"
      using api_submit_gates [of e' rq' ?S2 t a c k cfg] a g val in2 by simp
  }
qed

theorem exactly_once_per_txid_witness:
  "fst (api_submit scenario_cfg (scenario_env 1 Io_Ok)
          (scenario_request scenario_txid (str ''Nanaimo''))
          (snd (run_submits scenario_cfg []
             (snd (api_submit scenario_cfg (scenario_env 0 Io_Ok)
                (scenario_request scenario_txid (str ''Nanaimo'')) init_state)))))
     = Inr (Response_Error ''That TXID is already in the log.'' 409) \<and>
   length (filter (\<lambda>r. txid r = scenario_txid)
     (entries (snd (run_submits scenario_cfg []
        (snd (api_submit scenario_cfg (scenario_env 0 Io_Ok)
           (scenario_request scenario_txid (str ''Nanaimo'')) init_state)))))) = 1 \<and>
   entries (snd (api_submit scenario_cfg (scenario_env 1 Io_Ok)
          (scenario_request scenario_txid (str ''Nanaimo''))
          (snd (run_submits scenario_cfg []
             (snd (api_submit scenario_cfg (scenario_env 0 Io_Ok)
                (scenario_request scenario_txid (str ''Nanaimo'')) init_state))))))
     = entries (snd (run_submits scenario_cfg []
             (snd (api_submit scenario_cfg (scenario_env 0 Io_Ok)
                (scenario_request scenario_txid (str ''Nanaimo'')) init_state)))) \<and>
   (\<exists>msg. fst (api_submit scenario_cfg ((scenario_env 1 Io_Ok)\<lparr>geocoder := \<lambda>_. Raises\<rparr>)
          (scenario_request scenario_txid (str ''Nanaimo''))
          (snd (run_submits scenario_cfg []
             (snd (api_submit scenario_cfg (scenario_env 0 Io_Ok)
                (scenario_request scenario_txid (str ''Nanaimo'')) init_state)))))
     = Inr (Response_Error msg 400)) \<and>
   fst (api_submit scenario_cfg (scenario_env 21 Io_Ok)
          (scenario_request scenario_txid (str ''Nanaimo''))
          (snd (run_submits scenario_cfg []
             (snd (api_submit scenario_cfg (scenario_env 20 Io_Ok)
                (scenario_request scenario_txid (str ''Nanaimo''))
                (init_state\<lparr>ip_hits := Map.empty(str ''203.0.113.7'' \<mapsto>
                   [0, 1, 2, 3, 4, 5, 6, 7, 8, 9, 10])\<rparr>))))))
     \<noteq> Inr Response_Ok"
proof -
  let ?rq = "scenario_request scenario_txid (str ''Nanaimo'')"
  let ?e = "scenario_env 0 Io_Ok"
  let ?e' = "scenario_env 1 Io_Ok"
  let ?g = "(scenario_env 1 Io_Ok)\<lparr>geocoder := \<lambda>_. Raises\<rparr>"
  let ?S1 = "snd (api_submit scenario_cfg ?e ?rq init_state)"
  let ?S2 = "snd (run_submits scenario_cfg [] ?S1)"
  let ?st11 = "init_state\<lparr>ip_hits := Map.empty(str ''203.0.113.7'' \<mapsto>
                   [0, 1, 2, 3, 4, 5, 6, 7, 8, 9, 10])\<rparr>"
  have hits: "ip_hits ?S2 = Map.empty(str ''203.0.113.7'' \<mapsto> [0])"
    by (simp add: api_submit_ip_hits rate_limited_eq scenario_client_ip init_state_def
        hits_of_def scenario_env_def)
  have nl: "\<not> fst (rate_limited (now ?e') (client_ip ?rq) (ip_hits ?S2))"
    by (simp only: hits) (simp add: rate_limited_eq scenario_client_ip hits_of_def
        RATE_LIMIT_MAX_def)
  have nlg: "\<not> fst (rate_limited (now ?g) (client_ip ?rq) (ip_hits ?S2))"
    by (simp only: hits) (simp add: rate_limited_eq scenario_client_ip hits_of_def
        RATE_LIMIT_MAX_def)
  have ne: "str ''Nanaimo'' \<noteq> []" "str ''Canada'' \<noteq> []"
    by (simp_all add: str_def)
  have enc: "encodable (str ''sam'')" "encodable (str ''Nanaimo'')" "encodable (str ''Canada'')"
    "encodable (utc_now_iso ?e')"
    by (simp_all add: str_encodable scenario_env_def)
  have hyp: "distinct (map txid (entries init_state)) \<and>
    fst (api_submit scenario_cfg ?e ?rq init_state) = Inr Response_Ok \<and>
    get_sanitized (json_body ?rq) ''txid'' 64 = Inr scenario_txid \<and>
    get_sanitized (json_body ?rq) ''txid'' 64 = Inr scenario_txid"
    by (intro conjI scenario_run [THEN conjunct1])
       (simp_all add: init_state_def scenario_fields scenario_sanitized)
  have hyp11: "distinct (map txid (entries ?st11)) \<and>
    fst (api_submit scenario_cfg (scenario_env 20 Io_Ok) ?rq ?st11) = Inr Response_Ok \<and>
    get_sanitized (json_body ?rq) ''txid'' 64 = Inr scenario_txid \<and>
    get_sanitized (json_body ?rq) ''txid'' 64 = Inr scenario_txid"
    by (intro conjI quota_first_accepted)
       (simp_all add: init_state_def scenario_fields scenario_sanitized)
  have gates: "\<not> fst (rate_limited (now ?e') (client_ip ?rq) (ip_hits ?S2)) \<and>
       get_sanitized (json_body ?rq) ''alias'' ALIAS_MAX = Inr (str ''sam'') \<and>
       get_sanitized (json_body ?rq) ''city'' CITY_MAX = Inr (str ''Nanaimo'') \<and>
       get_sanitized (json_body ?rq) ''country'' COUNTRY_MAX = Inr (str ''Canada'') \<and>
       str ''Nanaimo'' \<noteq> [] \<and> str ''Canada'' \<noteq> [] \<and>
       verify_payment scenario_cfg ?e' scenario_txid = Some 0.0015 \<and>
       resolve_location ?e' (str ''Nanaimo'') (str ''Canada'')
         = Some (Fin 49.1659, Fin (- 123.9401)) \<and>
       encodable (str ''sam'') \<and> encodable (str ''Nanaimo'') \<and>
       encodable (str ''Canada'') \<and> encodable (utc_now_iso ?e')"
    by (intro conjI nl ne enc scenario_verify scenario_resolve)
       (simp_all add: scenario_fields scenario_sanitized)
  have unresolved: "resolve_location ?g (str ''Nanaimo'') (str ''Canada'') = None"
    by (simp add: resolve_location_eq)
  have fails: "\<not> fst (rate_limited (now ?g) (client_ip ?rq) (ip_hits ?S2)) \<and>
       get_sanitized (json_body ?rq) ''alias'' ALIAS_MAX = Inr (str ''sam'') \<and>
       get_sanitized (json_body ?rq) ''city'' CITY_MAX = Inr (str ''Nanaimo'') \<and>
       get_sanitized (json_body ?rq) ''country'' COUNTRY_MAX = Inr (str ''Canada'') \<and>
       (str ''Nanaimo'' = [] \<or> str ''Canada'' = [] \<or>
        verify_payment scenario_cfg ?g scenario_txid = None \<or>
        resolve_location ?g (str ''Nanaimo'') (str ''Canada'') = None)"
    using nlg unresolved by (simp add: scenario_fields scenario_sanitized)
  note T = exactly_once_per_txid [where cfg = scenario_cfg and st = init_state and e = ?e
      and rq = ?rq and rq' = ?rq and e' = ?e' and xs = "[]" and t = scenario_txid
      and a = "str ''sam''" and c = "str ''Nanaimo''" and k = "str ''Canada''"
      and amt = "0.0015" and la = "Fin 49.1659" and lo = "Fin (- 123.9401)",
      THEN conjunct2, THEN conjunct2, THEN conjunct2, THEN mp, OF hyp]
  note G = exactly_once_per_txid [where cfg = scenario_cfg and st = init_state and e = ?e
      and rq = ?rq and rq' = ?rq and e' = ?g and xs = "[]" and t = scenario_txid
      and a = "str ''sam''" and c = "str ''Nanaimo''" and k = "str ''Canada''",
      THEN conjunct2, THEN conjunct2, THEN conjunct2, THEN mp, OF hyp]
  note Q = exactly_once_per_txid [where cfg = scenario_cfg and st = ?st11
      and e = "scenario_env 20 Io_Ok" and rq = ?rq and rq' = ?rq
      and e' = "scenario_env 21 Io_Ok" and xs = "[]" and t = scenario_txid,
      THEN conjunct2, THEN conjunct2, THEN conjunct2, THEN mp, OF hyp11]
  show ?thesis
    apply (intro conjI)
        apply (rule T [THEN conjunct2, THEN conjunct2, THEN conjunct2, THEN conjunct2,
          THEN conjunct2, THEN mp, OF gates])
       apply (rule T [THEN conjunct1])
      apply (rule T [THEN conjunct2, THEN conjunct2, THEN conjunct1])
     apply (rule G [THEN conjunct2, THEN conjunct2, THEN conjunct2, THEN conjunct2,
          THEN conjunct1, THEN mp, OF fails])
    apply (rule Q [THEN conjunct2, THEN conjunct1])
    done
qed

text \<open>
  The claim as stated fails: an origin with eleven recorded attempts submits the same
  valid submission twice, against the same fact sources. The first is accepted; the second
  is the thirteenth attempt in the window and is answered 429, not 409.
\<close>

theorem exactly_once_per_txid_counterexample:
  "fst (api_submit scenario_cfg (scenario_env 20 Io_Ok)
          (scenario_request scenario_txid (str ''Nanaimo''))
          (init_state\<lparr>ip_hits := Map.empty(str ''203.0.113.7'' \<mapsto>
             [0, 1, 2, 3, 4, 5, 6, 7, 8, 9, 10])\<rparr>)) = Inr Response_Ok \<and>
   fst (api_submit scenario_cfg (scenario_env 21 Io_Ok)
          (scenario_request scenario_txid (str ''Nanaimo''))
          (snd (api_submit scenario_cfg (scenario_env 20 Io_Ok)
             (scenario_request scenario_txid (str ''Nanaimo''))
             (init_state\<lparr>ip_hits := Map.empty(str ''203.0.113.7'' \<mapsto>
                [0, 1, 2, 3, 4, 5, 6, 7, 8, 9, 10])\<rparr>))))
     = Inr (Response_Error ''Too many requests. Try again later.'' 429) \<and>
   fst (api_submit scenario_cfg (scenario_env 21 Io_Ok)
          (scenario_request scenario_txid (str ''Nanaimo''))
          (snd (api_submit scenario_cfg (scenario_env 20 Io_Ok)
             (scenario_request scenario_txid (str ''Nanaimo''))
             (init_state\<lparr>ip_hits := Map.empty(str ''203.0.113.7'' \<mapsto>
                [0, 1, 2, 3, 4, 5, 6, 7, 8, 9, 10])\<rparr>))))
     \<noteq> Inr (Response_Error ''That TXID is already in the log.'' 409)"
proof -
  let ?rq = "scenario_request scenario_txid (str ''Nanaimo'')"
  let ?st = "init_state\<lparr>ip_hits := Map.empty(str ''203.0.113.7'' \<mapsto>
             [0, 1, 2, 3, 4, 5, 6, 7, 8, 9, 10])\<rparr>"
  let ?S1 = "snd (api_submit scenario_cfg (scenario_env 20 Io_Ok) ?rq ?st)"
  have rl: "fst (rate_limited (now (scenario_env 21 Io_Ok)) (client_ip ?rq) (ip_hits ?S1))"
    using quota_second_limited by simp
  have 2: "fst (api_submit scenario_cfg (scenario_env 21 Io_Ok) ?rq ?S1)
     = Inr (Response_Error ''Too many requests. Try again later.'' 429)"
    using rl by (simp only: api_submit_429 simp_thms)
  have 3: "fst (api_submit scenario_cfg (scenario_env 21 Io_Ok) ?rq ?S1)
     \<noteq> Inr (Response_Error ''That TXID is already in the log.'' 409)"
    by (simp only: 2) simp
  show ?thesis
    by (intro conjI) (rule quota_first_accepted 2 3)+
qed

section \<open>Well-formed entries\<close>

lemma single_spaced_Cons:
  "single_spaced (c # xs) \<longleftrightarrow>
     (isspace c \<longrightarrow> c = SPACE \<and> (xs = [] \<or> \<not> isspace (hd xs))) \<and> single_spaced xs"
  by (cases xs) auto

lemma re_sub_ws_hd:
  "t \<noteq> [] \<Longrightarrow> \<not> isspace (hd t) \<Longrightarrow> re_sub_ws t \<noteq> [] \<and> hd (re_sub_ws t) = hd t"
  by (cases t) simp_all

lemma single_spaced_re_sub_ws: "single_spaced (re_sub_ws t)"
proof (induction t rule: re_sub_ws.induct)
  case 1
  show ?case by simp
next
  case (2 c cs)
  show ?case
  proof (cases "isspace c")
    case True
    let ?d = "dropWhile isspace cs"
    have "re_sub_ws ?d = [] \<or> \<not> isspace (hd (re_sub_ws ?d))"
    proof (cases "?d = []")
      case True
      then have "re_sub_ws ?d = re_sub_ws []" by (rule arg_cong)
      then show ?thesis by (simp only: re_sub_ws.simps simp_thms)
    next
      case False
      then have "\<not> isspace (hd ?d)" by (rule hd_dropWhile)
      with False show ?thesis using re_sub_ws_hd [of ?d] by simp
    qed
    with True 2(1) show ?thesis
      by (simp add: single_spaced_Cons)
  next
    case False
    with 2(2) show ?thesis by (simp add: single_spaced_Cons)
  qed
qed

lemma single_spaced_take: "single_spaced xs \<Longrightarrow> single_spaced (take n xs)"
proof (induction xs arbitrary: n)
  case Nil
  show ?case by simp
next
  case (Cons x xs)
  show ?case
  proof (cases n)
    case 0
    then show ?thesis by simp
  next
    case (Suc m)
    have "take m xs = [] \<or> hd (take m xs) = hd xs"
      by (cases m; cases xs) simp_all
    with Cons Suc show ?thesis
      by (auto simp: single_spaced_Cons)
  qed
qed

lemma re_sub_ws_last:
  "t \<noteq> [] \<Longrightarrow> \<not> isspace (last t) \<Longrightarrow> re_sub_ws t \<noteq> [] \<and> last (re_sub_ws t) = last t"
proof (induction t rule: re_sub_ws.induct)
  case 1
  then show ?case by simp
next
  case (2 c cs)
  show ?case
  proof (cases "isspace c")
    case True
    let ?d = "dropWhile isspace cs"
    from True 2(4) have cs: "cs \<noteq> []" "\<not> isspace (last cs)"
      by (auto split: if_splits)
    then have "last cs \<in> set cs" by simp
    with cs have dne: "?d \<noteq> []" by (auto simp: dropWhile_eq_Nil_conv)
    have ld: "last ?d = last cs"
      using dne by (metis last_appendR takeWhile_dropWhile_id)
    with cs dne 2(1) [OF True] have "re_sub_ws ?d \<noteq> [] \<and> last (re_sub_ws ?d) = last cs"
      by simp
    with True cs show ?thesis by simp
  next
    case False
    show ?thesis
    proof (cases cs)
      case Nil
      with False show ?thesis by simp
    next
      case (Cons d ds)
      with 2(4) have "\<not> isspace (last cs)" by simp
      with 2(2) [OF False] Cons have "re_sub_ws cs \<noteq> [] \<and> last (re_sub_ws cs) = last cs"
        by simp
      with False Cons show ?thesis by simp
    qed
  qed
qed

lemma sanitize_str_trailing:
  assumes "sanitize_str s (int n) \<noteq> []" and "isspace (last (sanitize_str s (int n)))"
  shows "length (sanitize_str s (int n)) = n"
proof (rule ccontr)
  let ?t = "re_sub_ws (py_strip s)"
  have eq: "sanitize_str s (int n) = take n ?t"
    by (simp add: sanitize_str_def py_slice_to_def)
  assume "length (sanitize_str s (int n)) \<noteq> n"
  then have short: "length ?t < n"
    by (simp add: eq min_def split: if_splits)
  then have whole: "sanitize_str s (int n) = ?t"
    by (simp add: eq)
  with assms(1) have "py_strip s \<noteq> []"
    by auto
  then have "\<not> isspace (last ?t)"
    using re_sub_ws_last [of "py_strip s"] py_strip_last [of s] by simp
  with assms(2) whole show False
    by simp
qed

lemma sanitize_str_shape:
  "length (sanitize_str s (int n)) \<le> n \<and>
   single_spaced (sanitize_str s (int n)) \<and>
   (sanitize_str s (int n) \<noteq> [] \<longrightarrow> \<not> isspace (hd (sanitize_str s (int n))))"
proof -
  let ?t = "re_sub_ws (py_strip s)"
  have eq: "sanitize_str s (int n) = take n ?t"
    by (simp add: sanitize_str_def py_slice_to_def)
  have "take n ?t \<noteq> [] \<Longrightarrow> \<not> isspace (hd (take n ?t))"
  proof -
    assume ne: "take n ?t \<noteq> []"
    then have "?t \<noteq> []" "n \<noteq> 0" by auto
    then have "py_strip s \<noteq> []" by auto
    then have "\<not> isspace (hd (py_strip s))" by (rule py_strip_hd)
    with \<open>py_strip s \<noteq> []\<close> have "hd ?t = hd (py_strip s)" "\<not> isspace (hd ?t)"
      using re_sub_ws_hd [of "py_strip s"] by simp_all
    moreover have "hd (take n ?t) = hd ?t"
      using \<open>n \<noteq> 0\<close> \<open>?t \<noteq> []\<close> by (cases n; cases ?t) simp_all
    ultimately show ?thesis by simp
  qed
  then show ?thesis
    by (simp add: eq single_spaced_take single_spaced_re_sub_ws)
qed

lemma get_sanitized_shape:
  assumes "get_sanitized b key (int n) = Inr v"
  shows "length v \<le> n \<and> single_spaced v \<and> (v \<noteq> [] \<longrightarrow> \<not> isspace (hd v)) \<and>
         (v \<noteq> [] \<and> isspace (last v) \<longrightarrow> length v = n)"
proof -
  obtain s where "v = sanitize_str s (int n)"
    using assms
    by (auto simp: get_sanitized_def data_get_def
        split: body.splits sum.splits option.splits jval.splits elim: sanitize_text.elims)
  then show ?thesis
    using sanitize_str_shape [of s n] sanitize_str_trailing [of s n] by auto
qed


lemma api_submit_entry_ok:
  assumes "\<forall>r\<in>set (entries st). entry_ok r"
  shows "\<forall>r\<in>set (entries (snd (api_submit cfg e rq st))). entry_ok r"
proof (cases "fst (api_submit cfg e rq st) = Inr Response_Ok")
  case True
  then show ?thesis
  proof (rule api_submit_Ok_D)
    fix t a c k x y amt
    assume f: "get_sanitized (json_body rq) ''alias'' ALIAS_MAX = Inr a"
      "get_sanitized (json_body rq) ''city'' CITY_MAX = Inr c"
      "get_sanitized (json_body rq) ''country'' COUNTRY_MAX = Inr k"
      and v: "valid_txid t" "c \<noteq> []" "k \<noteq> []"
      and st': "snd (api_submit cfg e rq st) = snd (export_log_json cfg (export_iso e) (export_io e)
                  (st\<lparr>ip_hits := snd (rate_limited (now e) (client_ip rq) (ip_hits st)),
                      entries := entries st @
                        [\<lparr>row_id = next_id st, txid = t, alias_text = Some a, city = c,
                          country = k, lat = x, lng = y, amount_btc = amt,
                          iso_date = utc_now_iso e\<rparr>],
                      sqlite_sequence := next_id st\<rparr>))"
    have "length a \<le> 30"
      using get_sanitized_shape [of "json_body rq" "''alias''" 30 a] f(1)
      by (simp add: ALIAS_MAX_def)
    moreover have "text_ok c 60"
      using get_sanitized_shape [of "json_body rq" "''city''" 60 c] f(2) v(2)
      by (simp add: CITY_MAX_def text_ok_def)
    moreover have "text_ok k 60"
      using get_sanitized_shape [of "json_body rq" "''country''" 60 k] f(3) v(3)
      by (simp add: COUNTRY_MAX_def text_ok_def)
    ultimately have "entry_ok \<lparr>row_id = next_id st, txid = t, alias_text = Some a, city = c,
                          country = k, lat = x, lng = y, amount_btc = amt,
                          iso_date = utc_now_iso e\<rparr>"
      using v(1) by (simp add: entry_ok_def)
    then show ?thesis
      using assms by (simp add: st' export_log_json_frame)
  qed
next
  case False
  then show ?thesis
    using api_submit_rejected [OF False] assms by simp
qed

lemma run_submits_entry_ok:
  "\<forall>r\<in>set (entries st). entry_ok r \<Longrightarrow>
   \<forall>r\<in>set (entries (snd (run_submits cfg xs st))). entry_ok r"
proof (induction xs arbitrary: st)
  case Nil
  then show ?case by simp
next
  case (Cons x xs)
  have "\<forall>r\<in>set (entries (snd (api_submit cfg (fst x) (snd x) st))). entry_ok r"
    using Cons.prems by (rule api_submit_entry_ok)
  then have "\<forall>r\<in>set (entries
      (snd (run_submits cfg xs (snd (api_submit cfg (fst x) (snd x) st))))). entry_ok r"
    by (rule Cons.IH)
  then show ?case by (simp add: split_def Let_def)
qed

lemma py_strip_id: "s \<noteq> [] \<Longrightarrow> \<not> isspace (hd s) \<Longrightarrow> \<not> isspace (last s) \<Longrightarrow> py_strip s = s"
proof -
  assume a: "s \<noteq> []" "\<not> isspace (hd s)" "\<not> isspace (last s)"
  then have "dropWhile isspace s = s" by (cases s) simp_all
  moreover have "dropWhile isspace (rev s) = rev s"
    using a by (cases "rev s") (simp_all add: last_rev [symmetric] hd_rev)
  ultimately show ?thesis by (simp add: py_strip_def)
qed

lemma re_sub_ws_nospace_append:
  "\<forall>c\<in>set w. \<not> isspace c \<Longrightarrow> re_sub_ws (w @ u) = w @ re_sub_ws u"
  by (induction w) simp_all

lemma trailing_space_sanitized:
  "sanitize_str (replicate 59 97 @ [32, 32, 98]) CITY_MAX = replicate 59 97 @ [32]"
proof -
  let ?s = "replicate 59 (97::nat) @ [32, 32, 98]"
  have "py_strip ?s = ?s"
    by (rule py_strip_id) (simp_all add: isspace_def hd_append)
  moreover have "re_sub_ws ?s = replicate 59 97 @ re_sub_ws [32, 32, 98]"
    by (rule re_sub_ws_nospace_append) (simp add: isspace_def)
  moreover have "re_sub_ws [32, 32, 98] = [32, 98]"
    by (simp add: isspace_def SPACE_def)
  ultimately show ?thesis
    by (simp add: sanitize_str_def py_slice_to_def CITY_MAX_def)
qed

lemma trailing_space_run:
  "fst (api_submit scenario_cfg (scenario_env 0 Io_Ok)
          (scenario_request scenario_txid (replicate 59 97 @ [32, 32, 98])) init_state)
     = Inr Response_Ok \<and>
   entries (snd (api_submit scenario_cfg (scenario_env 0 Io_Ok)
          (scenario_request scenario_txid (replicate 59 97 @ [32, 32, 98])) init_state))
     = [\<lparr>row_id = 1, txid = scenario_txid, alias_text = Some (str ''sam''),
         city = replicate 59 97 @ [32], country = str ''Canada'', lat = 49.1659,
         lng = - 123.9401, amount_btc = 0.0015, iso_date = str ''2024-01-01T00:00:00Z''\<rparr>]"
proof -
  let ?rq = "scenario_request scenario_txid (replicate 59 97 @ [32, 32, 98])"
  let ?e = "scenario_env 0 Io_Ok"
  have nl: "\<not> fst (rate_limited (now ?e) (client_ip ?rq) (ip_hits init_state))"
    by (simp add: rate_limited_eq init_state_def hits_of_def RATE_LIMIT_MAX_def)
  have ne: "replicate 59 97 @ [32::nat] \<noteq> []" "str ''Canada'' \<noteq> []"
    by (simp_all add: str_def)
  have fr: "scenario_txid \<notin> set (map txid (entries init_state))"
    by (simp add: init_state_def)
  have "encodable (replicate 59 97 @ [32])"
    by (simp add: encodable_def is_surrogate_def list_all_iff)
  then have enc: "encodable (str ''sam'') \<and> encodable (replicate 59 97 @ [32]) \<and>
      encodable (str ''Canada'') \<and> encodable (utc_now_iso ?e)"
    by (simp add: str_encodable scenario_env_def)
  have "next_id init_state = 1" "entries init_state = []"
    and "utc_now_iso ?e = str ''2024-01-01T00:00:00Z''"
    by (simp_all add: next_id_def init_state_def scenario_env_def)
  then show ?thesis
    using api_submit_accept [OF nl scenario_fields(1) scenario_fields(2) scenario_fields(3)
        scenario_fields(4), unfolded scenario_sanitized trailing_space_sanitized,
        OF scenario_valid_txid ne scenario_verify scenario_resolve fr enc]
    by simp
qed

text \<open>
  Claim C10, as amended. Every entry the service stores has a txid of 64 hexadecimal
  characters, a city and a country that are not empty, have at most 60 characters, do not
  start with whitespace, contain whitespace only as single spaces and end with whitespace
  only when they have exactly 60 characters, and an alias of at most 30 characters; its
  coordinates, amount and date are present, since the columns are \<open>NOT NULL\<close> and the
  \<open>INSERT\<close> stores no row for a \<open>NaN\<close>, which SQLite would bind as \<open>NULL\<close>. The
  property holds in the empty table and is kept by every submission and every export.
\<close>

theorem ledger_entries_well_formed:
  "((\<forall>r\<in>set (entries st). entry_ok r) \<longrightarrow>
      (\<forall>r\<in>set (entries (snd (api_submit cfg e rq st))). entry_ok r)) \<and>
   (\<forall>r\<in>set (entries (snd (run_submits cfg xs init_state))). entry_ok r) \<and>
   entries (snd (export_log_json cfg d fs st)) = entries st \<and>
   (\<forall>st'. insert_entry t a c k NaN lo amt d st \<noteq> Inr st') \<and>
   (\<forall>st'. insert_entry t a c k la NaN amt d st \<noteq> Inr st')"
proof (intro conjI impI)
  assume "\<forall>r\<in>set (entries st). entry_ok r"
  then show "\<forall>r\<in>set (entries (snd (api_submit cfg e rq st))). entry_ok r"
    by (rule api_submit_entry_ok)
next
  show "\<forall>r\<in>set (entries (snd (run_submits cfg xs init_state))). entry_ok r"
    by (rule run_submits_entry_ok) (simp add: init_state_def)
next
  show "entries (snd (export_log_json cfg d fs st)) = entries st"
    by (simp add: export_log_json_frame)
next
  show "\<forall>st'. insert_entry t a c k NaN lo amt d st \<noteq> Inr st'"
    by (simp add: insert_entry_def)
next
  show "\<forall>st'. insert_entry t a c k la NaN amt d st \<noteq> Inr st'"
    by (simp add: insert_entry_def split: pyfloat.split)
qed

theorem ledger_entries_well_formed_witness:
  "entry_ok \<lparr>row_id = 1, txid = scenario_txid, alias_text = Some (str ''sam''),
         city = str ''Nanaimo'', country = str ''Canada'', lat = 49.1659, lng = - 123.9401,
         amount_btc = 0.0015, iso_date = str ''2024-01-01T00:00:00Z''\<rparr> \<and>
   entry_ok \<lparr>row_id = 1, txid = scenario_txid, alias_text = Some (str ''sam''),
         city = replicate 59 97 @ [32], country = str ''Canada'', lat = 49.1659,
         lng = - 123.9401, amount_btc = 0.0015, iso_date = str ''2024-01-01T00:00:00Z''\<rparr> \<and>
   \<not> text_ok (str ''ab '') 60"
proof -
  let ?row = "\<lparr>row_id = 1, txid = scenario_txid, alias_text = Some (str ''sam''),
         city = str ''Nanaimo'', country = str ''Canada'', lat = 49.1659, lng = - 123.9401,
         amount_btc = 0.0015, iso_date = str ''2024-01-01T00:00:00Z''\<rparr>"
  let ?cut = "\<lparr>row_id = 1, txid = scenario_txid, alias_text = Some (str ''sam''),
         city = replicate 59 97 @ [32], country = str ''Canada'', lat = 49.1659,
         lng = - 123.9401, amount_btc = 0.0015, iso_date = str ''2024-01-01T00:00:00Z''\<rparr>"
  have init: "\<forall>r\<in>set (entries init_state). entry_ok r"
    by (simp add: init_state_def)
  have all: "\<forall>r\<in>set (entries (snd (api_submit scenario_cfg (scenario_env 0 Io_Ok)
      (scenario_request scenario_txid (str ''Nanaimo'')) init_state))). entry_ok r"
    by (rule ledger_entries_well_formed [THEN conjunct1, THEN mp, OF init])
  have "?row \<in> set (entries (snd (api_submit scenario_cfg (scenario_env 0 Io_Ok)
      (scenario_request scenario_txid (str ''Nanaimo'')) init_state)))"
    by (simp only: scenario_run [THEN conjunct2]) simp
  with all have 1: "entry_ok ?row" by (rule bspec)
  have all': "\<forall>r\<in>set (entries (snd (api_submit scenario_cfg (scenario_env 0 Io_Ok)
      (scenario_request scenario_txid (replicate 59 97 @ [32, 32, 98])) init_state))).
      entry_ok r"
    by (rule ledger_entries_well_formed [THEN conjunct1, THEN mp, OF init])
  have "?cut \<in> set (entries (snd (api_submit scenario_cfg (scenario_env 0 Io_Ok)
      (scenario_request scenario_txid (replicate 59 97 @ [32, 32, 98])) init_state)))"
    by (simp only: trailing_space_run [THEN conjunct2]) simp
  with all' have 2: "entry_ok ?cut" by (rule bspec)
  have 3: "\<not> text_ok (str ''ab '') 60"
    by (simp add: text_ok_def str_def isspace_def)
  show ?thesis
    by (intro conjI) (rule 1 2 3)+
qed

text \<open>
  The claim as stated fails for trailing whitespace: the sanitizer cuts after it has
  trimmed, so a city of 59 letters, two spaces and a letter is stored as 59 letters and a
  space.
\<close>

theorem ledger_entries_well_formed_counterexample:
  "fst (api_submit scenario_cfg (scenario_env 0 Io_Ok)
          (scenario_request scenario_txid (replicate 59 97 @ [32, 32, 98])) init_state)
     = Inr Response_Ok \<and>
   map city (entries (snd (api_submit scenario_cfg (scenario_env 0 Io_Ok)
          (scenario_request scenario_txid (replicate 59 97 @ [32, 32, 98])) init_state)))
     = [replicate 59 97 @ [32]] \<and>
   isspace (last (replicate 59 97 @ [32]))"
proof -
  have 2: "map city (entries (snd (api_submit scenario_cfg (scenario_env 0 Io_Ok)
          (scenario_request scenario_txid (replicate 59 97 @ [32, 32, 98])) init_state)))
     = [replicate 59 97 @ [32]]"
    by (simp only: trailing_space_run [THEN conjunct2]) simp
  have 3: "isspace (last (replicate 59 97 @ [32]))"
    by (simp add: isspace_def)
  show ?thesis
    by (intro conjI) (rule trailing_space_run [THEN conjunct1] 2 3)+
qed

end
